theory Spec2Isabelle
  imports Complex_Main
begin

section \<open>PLPNet: the fusion network SD_PFAN, the head YOLOXHead and the model YoloBody\<close>

text \<open>
  The development embeds \<^verbatim>\<open>nets/PLPNet.py\<close>. A tensor is the four dimensions torch gives
  it, with the channel axis kept as a list of channel planes of an arbitrary type: the only
  operations the file itself performs on tensor contents are along the channel axis
  (\<^verbatim>\<open>torch.cat(..., 1)\<close>), everything else is done by operators of torch, mmcv and of
  modules this file imports. Exceptions are values of a sum type, and every call of a
  submodule is recorded in a log, so that the order of effects can be stated.
\<close>

subsection \<open>Errors, events and the execution monad\<close>

datatype error = KeyError string | IndexError | ValueError | RuntimeError

datatype event = Instantiate string | Call string

type_synonym 'a exec = "event list \<Rightarrow> (error + 'a) \<times> event list"

definition ret :: "'a \<Rightarrow> 'a exec" where
  "ret v = (\<lambda>lg. (Inr v, lg))"

definition raise :: "error \<Rightarrow> 'a exec" where
  "raise e = (\<lambda>lg. (Inl e, lg))"

definition bnd :: "'a exec \<Rightarrow> ('a \<Rightarrow> 'b exec) \<Rightarrow> 'b exec" where
  "bnd m f = (\<lambda>lg. case m lg of
                 (Inl e, lg') \<Rightarrow> (Inl e, lg')
               | (Inr v, lg') \<Rightarrow> f v lg')"

definition emit :: "event \<Rightarrow> unit exec" where
  "emit ev = (\<lambda>lg. (Inr (), lg @ [ev]))"

definition lift :: "error + 'a \<Rightarrow> 'a exec" where
  "lift r = (case r of Inl e \<Rightarrow> raise e | Inr v \<Rightarrow> ret v)"

text \<open>Calling the submodule stored under an attribute name: the call is logged, then its
  result or its exception is passed on.\<close>

definition call :: "string \<Rightarrow> error + 'a \<Rightarrow> 'a exec" where
  "call name r = bnd (emit (Call name)) (\<lambda>_. lift r)"

subsection \<open>Tensors\<close>

record 'p tensor =
  dimN :: nat
  chans :: "'p list"
  dimH :: nat
  dimW :: nat

text \<open>The numeric content of an operator (its learned parameters and its arithmetic) is
  opaque: it gives the plane of output channel \<open>j\<close> as a function of the whole input.\<close>

type_synonym 'p kernel = "'p tensor \<Rightarrow> nat \<Rightarrow> 'p"

definition planes :: "nat \<Rightarrow> (nat \<Rightarrow> 'p) \<Rightarrow> 'p list" where
  "planes n g = map g [0..<n]"

text \<open>\<^verbatim>\<open>torch.cat(ts, 1)\<close>: all dimensions but the channel axis must agree.\<close>

definition torch_cat1 :: "'p tensor list \<Rightarrow> error + 'p tensor" where
  "torch_cat1 ts =
     (case ts of
        [] \<Rightarrow> Inl RuntimeError
      | t # rest \<Rightarrow>
          if list_all (\<lambda>u. dimN u = dimN t \<and> dimH u = dimH t \<and> dimW u = dimW t) rest
          then Inr (t\<lparr>chans := concat (map chans ts)\<rparr>)
          else Inl RuntimeError)"

text \<open>The channel slice \<^verbatim>\<open>t[:, a:b]\<close> for \<open>0 \<le> a \<le> b\<close>.\<close>

definition slice1 :: "nat \<Rightarrow> nat \<Rightarrow> 'p tensor \<Rightarrow> 'p tensor" where
  "slice1 a b t = t\<lparr>chans := take (b - a) (drop a (chans t))\<rparr>"

subsection \<open>Python arithmetic on channel counts\<close>

text \<open>\<^verbatim>\<open>int(x)\<close> of a float truncates toward zero. The width multiplier is a float; it is
  modelled as a rational. Every width of the profile table is a dyadic rational with a
  three-bit numerator, so the products with the channel counts are exact in binary
  floating point and the rational model computes what Python computes.\<close>

definition py_int :: "rat \<Rightarrow> int" where
  "py_int x = (if 0 \<le> x then \<lfloor>x\<rfloor> else \<lceil>x\<rceil>)"

subsection \<open>Operators of torch and mmcv\<close>

text \<open>Output size of a convolution along one axis (dilation 1); torch refuses an input that,
  padded, is smaller than the kernel.\<close>

definition conv_size :: "nat \<Rightarrow> nat \<Rightarrow> nat \<Rightarrow> nat \<Rightarrow> error + nat" where
  "conv_size n k s p =
     (if n + 2 * p < k \<or> s = 0 then Inl RuntimeError
      else Inr ((n + 2 * p - k) div s + 1))"

record 'p conv2d =
  in_channels :: int
  out_channels :: int
  kernel_size :: nat
  stride :: nat
  padding :: nat
  weights :: "'p kernel"

text \<open>A convolution checks the channel count of its input against its declaration, and
  torch refuses to run one that is declared with no output channel.\<close>

definition conv2d_forward :: "'p conv2d \<Rightarrow> 'p tensor \<Rightarrow> error + 'p tensor" where
  "conv2d_forward c x =
     (if int (length (chans x)) \<noteq> in_channels c then Inl RuntimeError
      else if out_channels c \<le> 0 then Inl RuntimeError
      else case conv_size (dimH x) (kernel_size c) (stride c) (padding c) of
             Inl e \<Rightarrow> Inl e
           | Inr h \<Rightarrow>
               (case conv_size (dimW x) (kernel_size c) (stride c) (padding c) of
                  Inl e \<Rightarrow> Inl e
                | Inr w \<Rightarrow>
                    Inr \<lparr>dimN = dimN x, chans = planes (nat (out_channels c)) (weights c x),
                         dimH = h, dimW = w\<rparr>))"

text \<open>\<^verbatim>\<open>nn.Conv2d\<close> and mmcv's \<^verbatim>\<open>SAConv2d\<close> (a subclass of a convolution layer) are built
  from the same arguments.\<close>

definition Conv2d :: "int \<Rightarrow> int \<Rightarrow> nat \<Rightarrow> nat \<Rightarrow> nat \<Rightarrow> 'p kernel \<Rightarrow> 'p conv2d" where
  "Conv2d cin cout k s p f =
     \<lparr>in_channels = cin, out_channels = cout, kernel_size = k, stride = s, padding = p,
      weights = f\<rparr>"

definition SAConv2d :: "int \<Rightarrow> int \<Rightarrow> nat \<Rightarrow> nat \<Rightarrow> nat \<Rightarrow> 'p kernel \<Rightarrow> 'p conv2d" where
  "SAConv2d cin cout k s p f = Conv2d cin cout k s p f"

text \<open>\<^verbatim>\<open>SAConv2d.forward\<close> of mmcv does more than its convolution. It first adds a context
  computed by a \<open>1 \<times> 1\<close> convolution on the pooled input, which checks the channel count;
  it then pads the input by 2 on every side in reflect mode for its switch, which torch
  refuses unless both spatial sides of the input are larger than 2; only then come the
  convolutions with the declared kernel size, stride and padding, whose output size is the
  one of an ordinary convolution.\<close>

definition SAConv2d_forward :: "'p conv2d \<Rightarrow> 'p tensor \<Rightarrow> error + 'p tensor" where
  "SAConv2d_forward c x =
     (if int (length (chans x)) \<noteq> in_channels c then Inl RuntimeError
      else if 2 < dimH x \<and> 2 < dimW x then conv2d_forward c x
      else Inl RuntimeError)"

text \<open>\<^verbatim>\<open>nn.ConvTranspose2d\<close>: the output size along one axis is
  \<open>(n - 1) * stride - 2 * padding + (kernel_size - 1) + output_padding + 1\<close>, computed in the
  integers.\<close>

record 'p convT2d =
  t_in_channels :: int
  t_out_channels :: int
  t_kernel_size :: nat
  t_stride :: nat
  t_padding :: nat
  t_output_padding :: nat
  t_weights :: "'p kernel"

definition convT_size :: "nat \<Rightarrow> nat \<Rightarrow> nat \<Rightarrow> nat \<Rightarrow> nat \<Rightarrow> int" where
  "convT_size n k s p opad =
     (int n - 1) * int s - 2 * int p + (int k - 1) + int opad + 1"

definition convT2d_forward :: "'p convT2d \<Rightarrow> 'p tensor \<Rightarrow> error + 'p tensor" where
  "convT2d_forward c x =
     (let h = convT_size (dimH x) (t_kernel_size c) (t_stride c) (t_padding c)
                (t_output_padding c);
          w = convT_size (dimW x) (t_kernel_size c) (t_stride c) (t_padding c)
                (t_output_padding c)
      in if int (length (chans x)) = t_in_channels c \<and> 0 \<le> h \<and> 0 \<le> w
         then Inr \<lparr>dimN = dimN x, chans = planes (nat (t_out_channels c)) (t_weights c x),
                   dimH = nat h, dimW = nat w\<rparr>
         else Inl RuntimeError)"

definition ConvTranspose2d ::
  "int \<Rightarrow> int \<Rightarrow> nat \<Rightarrow> nat \<Rightarrow> nat \<Rightarrow> nat \<Rightarrow> 'p kernel \<Rightarrow> 'p convT2d" where
  "ConvTranspose2d cin cout k s p opad f =
     \<lparr>t_in_channels = cin, t_out_channels = cout, t_kernel_size = k, t_stride = s,
      t_padding = p, t_output_padding = opad, t_weights = f\<rparr>"

subsection \<open>Modules imported from the rest of the repository\<close>

text \<open>Modelled from the spec: \<^verbatim>\<open>BaseConv\<close> and \<^verbatim>\<open>DWConv\<close> of \<^verbatim>\<open>nets/darknet.py\<close>, which is
  not among the sources. The spec describes them as a convolution followed by normalisation
  and activation (depthwise-separable for \<^verbatim>\<open>DWConv\<close>) that declares its input and output
  channel counts and its stride, leaves the spatial size unchanged at stride 1 and fails
  on an input of another channel count; the padding \<open>(ksize - 1) div 2\<close> is the one that
  keeps the size at stride 1 for an odd kernel.\<close>

definition BaseConv :: "int \<Rightarrow> int \<Rightarrow> nat \<Rightarrow> nat \<Rightarrow> string \<Rightarrow> 'p kernel \<Rightarrow> 'p conv2d" where
  "BaseConv cin cout ksize s act f = Conv2d cin cout ksize s ((ksize - 1) div 2) f"

definition DWConv :: "int \<Rightarrow> int \<Rightarrow> nat \<Rightarrow> nat \<Rightarrow> string \<Rightarrow> 'p kernel \<Rightarrow> 'p conv2d" where
  "DWConv cin cout ksize s act f = Conv2d cin cout ksize s ((ksize - 1) div 2) f"

text \<open>Modelled from the spec: the attention gate \<^verbatim>\<open>LRAM\<close> of \<^verbatim>\<open>nets/LRAM.py\<close>, which is not
  among the sources. The spec gives it as a map from a feature tensor to a reweighted
  tensor of identical shape, with no further assumption.\<close>

record 'p lram =
  l_in :: int
  l_out :: int
  l_weights :: "'p kernel"

definition LRAM :: "int \<Rightarrow> int \<Rightarrow> 'p kernel \<Rightarrow> 'p lram" where
  "LRAM cin cout f = \<lparr>l_in = cin, l_out = cout, l_weights = f\<rparr>"

definition lram_forward :: "'p lram \<Rightarrow> 'p tensor \<Rightarrow> error + 'p tensor" where
  "lram_forward g x = Inr (x\<lparr>chans := planes (length (chans x)) (l_weights g x)\<rparr>)"

text \<open>Modelled from the spec: the backbone \<^verbatim>\<open>PAC_CSPDarknet\<close> of \<^verbatim>\<open>nets/PAC_darknet.py\<close>,
  which is not among the sources. The spec gives it as a map from the input image to a
  mapping from feature-level names to feature tensors; what it returns is a parameter.\<close>

record 'p darknet =
  d_depth :: rat
  d_width :: rat
  d_depthwise :: bool
  d_act :: string
  d_run :: "'p tensor \<Rightarrow> (string \<rightharpoonup> 'p tensor)"

definition PAC_CSPDarknet ::
  "rat \<Rightarrow> rat \<Rightarrow> bool \<Rightarrow> string \<Rightarrow> ('p tensor \<Rightarrow> (string \<rightharpoonup> 'p tensor)) \<Rightarrow> 'p darknet" where
  "PAC_CSPDarknet depth width depthwise act f =
     \<lparr>d_depth = depth, d_width = width, d_depthwise = depthwise, d_act = act, d_run = f\<rparr>"

text \<open>What construction draws from outside the program: the behaviour of the backbone and
  the numeric content of every layer, by attribute name and position.\<close>

record 'p params =
  backbone_out :: "'p tensor \<Rightarrow> (string \<rightharpoonup> 'p tensor)"
  layer :: "string \<Rightarrow> nat \<Rightarrow> 'p kernel"

subsection \<open>Helpers for module lists and containers\<close>

text \<open>\<^verbatim>\<open>self.stems[k]\<close>: indexing a module list out of range raises.\<close>

definition module_at :: "'a list \<Rightarrow> nat \<Rightarrow> 'a exec" where
  "module_at ms k = (if k < length ms then ret (ms ! k) else raise IndexError)"

text \<open>\<^verbatim>\<open>nn.Sequential\<close>: the layers are applied in order.\<close>

fun seq_forward :: "'p conv2d list \<Rightarrow> 'p tensor \<Rightarrow> error + 'p tensor" where
  "seq_forward [] x = Inr x"
| "seq_forward (c # cs) x =
     (case conv2d_forward c x of Inl e \<Rightarrow> Inl e | Inr y \<Rightarrow> seq_forward cs y)"

subsection \<open>YOLOXHead\<close>

record 'p YOLOXHead =
  cls_convs :: "'p conv2d list list"
  reg_convs :: "'p conv2d list list"
  cls_preds :: "'p conv2d list"
  reg_preds :: "'p conv2d list"
  obj_preds :: "'p conv2d list"
  stems :: "'p conv2d list"

definition YOLOXHead_init ::
  "'p params \<Rightarrow> nat \<Rightarrow> rat \<Rightarrow> int list \<Rightarrow> string \<Rightarrow> bool \<Rightarrow> 'p YOLOXHead" where
  "YOLOXHead_init W num_classes width in_chs act depthwise =
     (let Conv = (if depthwise then DWConv else BaseConv);
          idx = [0..<length in_chs]
      in \<lparr>cls_convs = map (\<lambda>i.
              [Conv (py_int (256 * width)) (py_int (256 * width)) 3 1 act
                 (layer W ''cls_convs.0'' i),
               Conv (py_int (256 * width)) (py_int (256 * width)) 3 1 act
                 (layer W ''cls_convs.1'' i)]) idx,
          reg_convs = map (\<lambda>i.
              [Conv (py_int (256 * width)) (py_int (256 * width)) 3 1 act
                 (layer W ''reg_convs.0'' i),
               Conv (py_int (256 * width)) (py_int (256 * width)) 3 1 act
                 (layer W ''reg_convs.1'' i)]) idx,
          cls_preds = map (\<lambda>i.
              Conv2d (py_int (256 * width)) (int num_classes) 1 1 0
                (layer W ''cls_preds'' i)) idx,
          reg_preds = map (\<lambda>i.
              Conv2d (py_int (256 * width)) 4 1 1 0 (layer W ''reg_preds'' i)) idx,
          obj_preds = map (\<lambda>i.
              Conv2d (py_int (256 * width)) 1 1 1 0 (layer W ''obj_preds'' i)) idx,
          stems = map (\<lambda>i.
              BaseConv (py_int (of_int (in_chs ! i) * width)) (py_int (256 * width)) 1 1 act
                (layer W ''stems'' i)) idx\<rparr>)"

text \<open>One pass of the loop body of \<^verbatim>\<open>YOLOXHead.forward\<close> up to the three branch outputs,
  in the order the source computes them.\<close>

definition head_branches ::
  "'p YOLOXHead \<Rightarrow> nat \<Rightarrow> 'p tensor \<Rightarrow> ('p tensor \<times> 'p tensor \<times> 'p tensor) exec" where
  "head_branches hm k x0 =
     bnd (module_at (stems hm) k) (\<lambda>stem.
     bnd (call ''stems'' (conv2d_forward stem x0)) (\<lambda>x.
     bnd (module_at (cls_convs hm) k) (\<lambda>cc.
     bnd (call ''cls_convs'' (seq_forward cc x)) (\<lambda>cls_feat.
     bnd (module_at (cls_preds hm) k) (\<lambda>cp.
     bnd (call ''cls_preds'' (conv2d_forward cp cls_feat)) (\<lambda>cls_output.
     bnd (module_at (reg_convs hm) k) (\<lambda>rc.
     bnd (call ''reg_convs'' (seq_forward rc x)) (\<lambda>reg_feat.
     bnd (module_at (reg_preds hm) k) (\<lambda>rp.
     bnd (call ''reg_preds'' (conv2d_forward rp reg_feat)) (\<lambda>reg_output.
     bnd (module_at (obj_preds hm) k) (\<lambda>opd.
     bnd (call ''obj_preds'' (conv2d_forward opd reg_feat)) (\<lambda>obj_output.
     ret (reg_output, obj_output, cls_output)))))))))))))"

definition head_scale :: "'p YOLOXHead \<Rightarrow> nat \<Rightarrow> 'p tensor \<Rightarrow> 'p tensor exec" where
  "head_scale hm k x =
     bnd (head_branches hm k x) (\<lambda>(reg_output, obj_output, cls_output).
     call ''torch.cat'' (torch_cat1 [reg_output, obj_output, cls_output]))"

text \<open>The loop \<^verbatim>\<open>for k, x in enumerate(inputs)\<close> with its accumulator \<^verbatim>\<open>outputs\<close>.\<close>

fun head_loop ::
  "'p YOLOXHead \<Rightarrow> nat \<Rightarrow> 'p tensor list \<Rightarrow> 'p tensor list \<Rightarrow> 'p tensor list exec" where
  "head_loop hm k [] outputs = ret outputs"
| "head_loop hm k (x # xs) outputs =
     bnd (head_scale hm k x) (\<lambda>output. head_loop hm (Suc k) xs (outputs @ [output]))"

definition YOLOXHead_forward :: "'p YOLOXHead \<Rightarrow> 'p tensor list \<Rightarrow> 'p tensor list exec" where
  "YOLOXHead_forward hm inputs = head_loop hm 0 inputs []"

subsection \<open>SD_PFAN\<close>

record 'p SD_PFAN =
  backbone :: "'p darknet"
  in_features :: "string list"
  upsample_L_to_M :: "'p convT2d"
  upsample_M_to_H :: "'p convT2d"
  downsample_M_to_L :: "'p conv2d"
  downsample_H_to_M :: "'p conv2d"
  resize_H :: "'p conv2d"
  resize_M :: "'p conv2d"
  resize_L :: "'p conv2d"
  feat1_attention :: "'p lram"
  feat2_attention :: "'p lram"
  feat3_attention :: "'p lram"

text \<open>The constructor reads \<^verbatim>\<open>in_channels[0]\<close>, \<^verbatim>\<open>[1]\<close> and \<^verbatim>\<open>[2]\<close>, the last one first; a
  shorter list raises there. \<^verbatim>\<open>in_channels[1] // 2 * width\<close> is
  \<^verbatim>\<open>(in_channels[1] // 2) * width\<close>.\<close>

definition SD_PFAN_init ::
  "'p params \<Rightarrow> rat \<Rightarrow> rat \<Rightarrow> string list \<Rightarrow> int list \<Rightarrow> bool \<Rightarrow> string
     \<Rightarrow> error + 'p SD_PFAN" where
  "SD_PFAN_init W depth width in_feats in_chs depthwise act =
     (if length in_chs < 3 then Inl IndexError
      else Inr
       \<lparr>backbone = PAC_CSPDarknet depth width depthwise act (backbone_out W),
        in_features = in_feats,
        upsample_L_to_M = ConvTranspose2d
          (py_int (of_int (in_chs ! 2) * width)) (py_int (of_int (in_chs ! 1) * width))
          3 2 1 1 (layer W ''upsample_L_to_M'' 0),
        upsample_M_to_H = ConvTranspose2d
          (py_int (of_int (2 * (in_chs ! 1)) * width))
          (py_int (of_int ((in_chs ! 1) div 2) * width))
          3 2 1 1 (layer W ''upsample_M_to_H'' 0),
        downsample_M_to_L = SAConv2d
          (py_int (of_int (2 * (in_chs ! 1)) * width)) (py_int (of_int (in_chs ! 2) * width))
          3 2 1 (layer W ''downsample_M_to_L'' 0),
        downsample_H_to_M = SAConv2d
          (py_int (of_int (2 * (in_chs ! 0)) * width))
          (py_int (of_int (2 * (in_chs ! 1)) * width))
          3 2 1 (layer W ''downsample_H_to_M'' 0),
        resize_H = BaseConv
          (py_int (of_int (2 * (in_chs ! 0)) * width)) (py_int (of_int (in_chs ! 0) * width))
          1 1 act (layer W ''resize_H'' 0),
        resize_M = BaseConv
          (py_int (of_int (4 * (in_chs ! 1)) * width)) (py_int (of_int (in_chs ! 1) * width))
          1 1 act (layer W ''resize_M'' 0),
        resize_L = BaseConv
          (py_int (of_int (2 * (in_chs ! 2)) * width)) (py_int (of_int (in_chs ! 2) * width))
          1 1 act (layer W ''resize_L'' 0),
        feat1_attention = LRAM
          (py_int (of_int (in_chs ! 0) * width)) (py_int (of_int (in_chs ! 0) * width))
          (layer W ''feat1_attention'' 0),
        feat2_attention = LRAM
          (py_int (of_int (in_chs ! 1) * width)) (py_int (of_int (in_chs ! 1) * width))
          (layer W ''feat2_attention'' 0),
        feat3_attention = LRAM
          (py_int (of_int (in_chs ! 2) * width)) (py_int (of_int (in_chs ! 2) * width))
          (layer W ''feat3_attention'' 0)\<rparr>)"

text \<open>\<^verbatim>\<open>[out_features[f] for f in self.in_features]\<close>: the names are looked up in order and
  the first missing one raises \<^verbatim>\<open>KeyError\<close>.\<close>

fun lookup_all :: "(string \<rightharpoonup> 'a) \<Rightarrow> string list \<Rightarrow> 'a list exec" where
  "lookup_all m [] = ret []"
| "lookup_all m (f # fs) =
     (case m f of
        None \<Rightarrow> raise (KeyError f)
      | Some v \<Rightarrow> bnd (lookup_all m fs) (\<lambda>vs. ret (v # vs)))"

text \<open>The body of \<^verbatim>\<open>SD_PFAN.forward\<close> after the three features are bound.\<close>

definition fuse ::
  "'p SD_PFAN \<Rightarrow> 'p tensor \<Rightarrow> 'p tensor \<Rightarrow> 'p tensor
     \<Rightarrow> ('p tensor \<times> 'p tensor \<times> 'p tensor) exec" where
  "fuse P feat1_0 feat2_0 feat3_0 =
     bnd (call ''feat3_attention'' (lram_forward (feat3_attention P) feat3_0)) (\<lambda>feat3.
     bnd (call ''feat2_attention'' (lram_forward (feat2_attention P) feat2_0)) (\<lambda>feat2.
     bnd (call ''feat1_attention'' (lram_forward (feat1_attention P) feat1_0)) (\<lambda>feat1.
     bnd (call ''upsample_L_to_M'' (convT2d_forward (upsample_L_to_M P) feat3))
       (\<lambda>feat3_upsample.
     bnd (call ''torch.cat'' (torch_cat1 [feat2, feat3_upsample])) (\<lambda>Fmap_M_prs.
     bnd (call ''upsample_M_to_H'' (convT2d_forward (upsample_M_to_H P) Fmap_M_prs))
       (\<lambda>Fmap_M_prs_upsample.
     bnd (call ''torch.cat'' (torch_cat1 [feat1, Fmap_M_prs_upsample])) (\<lambda>Fmap_H_out.
     bnd (call ''downsample_M_to_L'' (SAConv2d_forward (downsample_M_to_L P) Fmap_M_prs))
       (\<lambda>Fmap_M_prs_downsample.
     bnd (call ''downsample_H_to_M'' (SAConv2d_forward (downsample_H_to_M P) Fmap_H_out))
       (\<lambda>Fmap_H_out_downsample.
     bnd (call ''torch.cat'' (torch_cat1 [Fmap_H_out_downsample, Fmap_M_prs]))
       (\<lambda>Fmap_M_out.
     bnd (call ''torch.cat'' (torch_cat1 [feat3, Fmap_M_prs_downsample])) (\<lambda>Fmap_L_out.
     bnd (call ''resize_H'' (conv2d_forward (resize_H P) Fmap_H_out)) (\<lambda>Fmap_H_out'.
     bnd (call ''resize_M'' (conv2d_forward (resize_M P) Fmap_M_out)) (\<lambda>Fmap_M_out'.
     bnd (call ''resize_L'' (conv2d_forward (resize_L P) Fmap_L_out)) (\<lambda>Fmap_L_out'.
     ret (Fmap_H_out', Fmap_M_out', Fmap_L_out')))))))))))))))"

definition SD_PFAN_forward ::
  "'p SD_PFAN \<Rightarrow> 'p tensor \<Rightarrow> ('p tensor \<times> 'p tensor \<times> 'p tensor) exec" where
  "SD_PFAN_forward P input =
     bnd (call ''backbone'' (Inr (d_run (backbone P) input))) (\<lambda>out_features.
     bnd (lookup_all out_features (in_features P)) (\<lambda>feats.
     case feats of
       [feat1, feat2, feat3] \<Rightarrow> fuse P feat1 feat2 feat3
     | _ \<Rightarrow> raise ValueError))"

subsection \<open>YoloBody\<close>

definition depth_dict :: "(string \<times> rat) list" where
  "depth_dict = [(''nano'', 33/100), (''tiny'', 33/100), (''s'', 33/100), (''m'', 67/100),
                 (''l'', 1), (''x'', 133/100)]"

definition width_dict :: "(string \<times> rat) list" where
  "width_dict = [(''nano'', 1/4), (''tiny'', 3/8), (''s'', 1/2), (''m'', 3/4),
                 (''l'', 1), (''x'', 5/4)]"

record 'p YoloBody =
  yb_backbone :: "'p SD_PFAN"
  yb_head :: "'p YOLOXHead"

text \<open>\<^verbatim>\<open>depth_dict[phi]\<close> is evaluated first, then \<^verbatim>\<open>width_dict[phi]\<close>, then the two
  submodules are built with the default feature names and channel counts.\<close>

definition YoloBody_init :: "'p params \<Rightarrow> nat \<Rightarrow> string \<Rightarrow> 'p YoloBody exec" where
  "YoloBody_init W num_classes phi =
     (case map_of depth_dict phi of
        None \<Rightarrow> raise (KeyError phi)
      | Some depth \<Rightarrow>
          (case map_of width_dict phi of
             None \<Rightarrow> raise (KeyError phi)
           | Some width \<Rightarrow>
               (let depthwise = (if phi = ''nano'' then True else False) in
                bnd (emit (Instantiate ''SD_PFAN'')) (\<lambda>_.
                bnd (lift (SD_PFAN_init W depth width [''dark3'', ''dark4'', ''dark5'']
                             [256, 512, 1024] depthwise ''silu'')) (\<lambda>b.
                bnd (emit (Instantiate ''YOLOXHead'')) (\<lambda>_.
                ret \<lparr>yb_backbone = b,
                     yb_head = YOLOXHead_init W num_classes width [256, 512, 1024] ''silu''
                                 depthwise\<rparr>))))))"

definition YoloBody_forward :: "'p YoloBody \<Rightarrow> 'p tensor \<Rightarrow> 'p tensor list exec" where
  "YoloBody_forward M x =
     bnd (SD_PFAN_forward (yb_backbone M) x) (\<lambda>(h, m, l).
     YOLOXHead_forward (yb_head M) [h, m, l])"

text \<open>Constructing the fusion network with the default arguments of its constructor and
  running it once on an image.\<close>

definition SD_PFAN_run ::
  "'p params \<Rightarrow> rat \<Rightarrow> rat \<Rightarrow> 'p tensor \<Rightarrow> ('p tensor \<times> 'p tensor \<times> 'p tensor) exec" where
  "SD_PFAN_run W depth width x =
     bnd (lift (SD_PFAN_init W depth width [''dark3'', ''dark4'', ''dark5'']
                  [256, 512, 1024] False ''silu''))
       (\<lambda>P. SD_PFAN_forward P x)"

text \<open>Constructing the model and running it once on an image.\<close>

definition YoloBody_run :: "'p params \<Rightarrow> nat \<Rightarrow> string \<Rightarrow> 'p tensor \<Rightarrow> 'p tensor list exec" where
  "YoloBody_run W num_classes phi x =
     bnd (YoloBody_init W num_classes phi) (\<lambda>M. YoloBody_forward M x)"

subsection \<open>The declared channel counts\<close>

text \<open>The channel counts the constructor of \<^verbatim>\<open>SD_PFAN\<close> declares (input then output of
  each operator, in the order of the source), and the base counts they are scaled from.\<close>

definition SD_PFAN_channels :: "'p SD_PFAN \<Rightarrow> int list" where
  "SD_PFAN_channels P =
     [t_in_channels (upsample_L_to_M P), t_out_channels (upsample_L_to_M P),
      t_in_channels (upsample_M_to_H P), t_out_channels (upsample_M_to_H P),
      in_channels (downsample_M_to_L P), out_channels (downsample_M_to_L P),
      in_channels (downsample_H_to_M P), out_channels (downsample_H_to_M P),
      in_channels (resize_H P), out_channels (resize_H P),
      in_channels (resize_M P), out_channels (resize_M P),
      in_channels (resize_L P), out_channels (resize_L P),
      l_in (feat1_attention P), l_out (feat1_attention P),
      l_in (feat2_attention P), l_out (feat2_attention P),
      l_in (feat3_attention P), l_out (feat3_attention P)]"

definition SD_PFAN_bases :: "int list \<Rightarrow> int list" where
  "SD_PFAN_bases in_chs =
     [in_chs ! 2, in_chs ! 1,
      2 * (in_chs ! 1), (in_chs ! 1) div 2,
      2 * (in_chs ! 1), in_chs ! 2,
      2 * (in_chs ! 0), 2 * (in_chs ! 1),
      2 * (in_chs ! 0), in_chs ! 0,
      4 * (in_chs ! 1), in_chs ! 1,
      2 * (in_chs ! 2), in_chs ! 2,
      in_chs ! 0, in_chs ! 0,
      in_chs ! 1, in_chs ! 1,
      in_chs ! 2, in_chs ! 2]"

text \<open>The same for the scaled counts of scale \<open>i\<close> of the head: the stem, the two layers of
  each branch, and the inputs of the three prediction layers.\<close>

definition YOLOXHead_channels :: "'p YOLOXHead \<Rightarrow> nat \<Rightarrow> int list" where
  "YOLOXHead_channels hm i =
     [in_channels (stems hm ! i), out_channels (stems hm ! i)]
     @ concat (map (\<lambda>c. [in_channels c, out_channels c]) (cls_convs hm ! i))
     @ [in_channels (cls_preds hm ! i)]
     @ concat (map (\<lambda>c. [in_channels c, out_channels c]) (reg_convs hm ! i))
     @ [in_channels (reg_preds hm ! i), in_channels (obj_preds hm ! i)]"

definition YOLOXHead_bases :: "int list \<Rightarrow> nat \<Rightarrow> int list" where
  "YOLOXHead_bases in_chs i =
     [in_chs ! i, 256] @ [256, 256, 256, 256] @ [256] @ [256, 256, 256, 256] @ [256, 256]"


subsection \<open>Shapes\<close>

definition shape :: "'p tensor \<Rightarrow> nat \<times> nat \<times> nat \<times> nat" where
  "shape t = (dimN t, length (chans t), dimH t, dimW t)"

text \<open>The parameters one pass of the head's loop reads at scale \<open>k\<close>.\<close>

definition scale_params ::
  "'p YOLOXHead \<Rightarrow> nat
     \<Rightarrow> 'p conv2d \<times> 'p conv2d list \<times> 'p conv2d \<times> 'p conv2d list \<times> 'p conv2d \<times> 'p conv2d" where
  "scale_params hm k =
     (stems hm ! k, cls_convs hm ! k, cls_preds hm ! k, reg_convs hm ! k, reg_preds hm ! k,
      obj_preds hm ! k)"

text \<open>A parameter environment and feature tensors for concrete runs: planes carry no
  content, the backbone returns a given mapping whatever the image.\<close>

definition unit_tensor :: "nat \<Rightarrow> nat \<Rightarrow> nat \<Rightarrow> nat \<Rightarrow> unit tensor" where
  "unit_tensor n c h w = \<lparr>dimN = n, chans = replicate c (), dimH = h, dimW = w\<rparr>"

definition unit_params :: "(string \<rightharpoonup> unit tensor) \<Rightarrow> unit params" where
  "unit_params m = \<lparr>backbone_out = (\<lambda>_. m), layer = (\<lambda>_ _ _ _. ())\<rparr>"

section \<open>Properties\<close>

subsection \<open>The execution monad and the operators\<close>

lemma bnd_Inr: "m lg = (Inr v, lg') \<Longrightarrow> bnd m f lg = f v lg'"
  by (simp add: bnd_def)

lemma bnd_Inl: "m lg = (Inl e, lg') \<Longrightarrow> bnd m f lg = (Inl e, lg')"
  by (simp add: bnd_def)

lemma call_Inr: "call name (Inr v) lg = (Inr v, lg @ [Call name])"
  by (simp add: call_def bnd_def emit_def lift_def ret_def)

lemma call_Inl: "call name (Inl e) lg = (Inl e, lg @ [Call name])"
  by (simp add: call_def bnd_def emit_def lift_def raise_def)

lemma length_planes: "length (planes n g) = n"
  by (simp add: planes_def)

lemma conv2d_forward_shape:
  assumes "shape x = (n, c, h, w)" and "in_channels cv = int c"
    and "kernel_size cv \<le> h + 2 * padding cv" and "kernel_size cv \<le> w + 2 * padding cv"
    and "0 < stride cv" and "0 < out_channels cv"
  shows "\<exists>y. conv2d_forward cv x = Inr y \<and>
             shape y = (n, nat (out_channels cv),
                        (h + 2 * padding cv - kernel_size cv) div stride cv + 1,
                        (w + 2 * padding cv - kernel_size cv) div stride cv + 1)"
  using assms by (simp add: conv2d_forward_def conv_size_def shape_def length_planes)

lemma BaseConv_1x1_shape:
  assumes "shape x = (n, c, h, w)" and "0 < h" and "0 < w" and "cin = int c" and "0 < cout"
  shows "\<exists>y. conv2d_forward (BaseConv cin cout 1 1 act f) x = Inr y \<and>
             shape y = (n, nat cout, h, w)"
  using conv2d_forward_shape [of x n c h w "BaseConv cin cout 1 1 act f"] assms
  by (simp add: BaseConv_def Conv2d_def)

lemma Conv2d_1x1_shape:
  assumes "shape x = (n, c, h, w)" and "0 < h" and "0 < w" and "cin = int c" and "0 < cout"
  shows "\<exists>y. conv2d_forward (Conv2d cin cout 1 1 0 f) x = Inr y \<and>
             shape y = (n, nat cout, h, w)"
  using conv2d_forward_shape [of x n c h w "Conv2d cin cout 1 1 0 f"] assms
  by (simp add: Conv2d_def)

lemma SAConv2d_down_shape:
  assumes "shape x = (n, c, 2 * h, 2 * w)" and "1 < h" and "1 < w" and "cin = int c"
    and "0 < cout"
  shows "\<exists>y. SAConv2d_forward (SAConv2d cin cout 3 2 1 f) x = Inr y \<and>
             shape y = (n, nat cout, h, w)"
proof -
  have "(2 * h + 2 * 1 - 3) div 2 + 1 = h" "(2 * w + 2 * 1 - 3) div 2 + 1 = w"
    using assms by presburger+
  then have "\<exists>y. conv2d_forward (SAConv2d cin cout 3 2 1 f) x = Inr y \<and>
             shape y = (n, nat cout, h, w)"
    using conv2d_forward_shape [of x n c "2 * h" "2 * w" "SAConv2d cin cout 3 2 1 f"] assms
    by (simp add: SAConv2d_def Conv2d_def)
  moreover have "2 < dimH x" "2 < dimW x"
    "int (length (chans x)) = in_channels (SAConv2d cin cout 3 2 1 f)"
    using assms by (simp_all add: shape_def SAConv2d_def Conv2d_def)
  ultimately show ?thesis
    by (simp add: SAConv2d_forward_def)
qed

lemma SAConv2d_small_input:
  assumes "dimH x \<le> 2"
  shows "SAConv2d_forward c x = Inl RuntimeError"
  using assms by (simp add: SAConv2d_forward_def)

lemma ConvTranspose2d_up_shape:
  assumes "shape x = (n, c, h, w)" and "cin = int c"
  shows "\<exists>y. convT2d_forward (ConvTranspose2d cin cout 3 2 1 1 f) x = Inr y \<and>
             shape y = (n, nat cout, 2 * h, 2 * w)"
proof -
  have "nat (int h * 2) = 2 * h" "nat (int w * 2) = 2 * w" by linarith+
  then show ?thesis
    using assms
    by (simp add: convT2d_forward_def ConvTranspose2d_def convT_size_def shape_def
          length_planes Let_def)
qed

lemma lram_forward_shape:
  "\<exists>y. lram_forward g x = Inr y \<and> shape y = shape x"
  by (simp add: lram_forward_def shape_def length_planes)

lemma torch_cat1_pair_shape:
  assumes "shape a = (n, ca, h, w)" and "shape b = (n, cb, h, w)"
  shows "\<exists>y. torch_cat1 [a, b] = Inr y \<and> shape y = (n, ca + cb, h, w) \<and>
             chans y = chans a @ chans b"
  using assms by (simp add: torch_cat1_def shape_def)


subsection \<open>The fusion graph on well-shaped features\<close>

lemma fuse_shapes:
  assumes P: "upsample_L_to_M P = ConvTranspose2d (int cL) (int cM) 3 2 1 1 k1"
      "upsample_M_to_H P = ConvTranspose2d (int (2 * cM)) (int cH) 3 2 1 1 k2"
      "downsample_M_to_L P = SAConv2d (int (2 * cM)) (int cL) 3 2 1 k3"
      "downsample_H_to_M P = SAConv2d (int (2 * cH)) (int (2 * cM)) 3 2 1 k4"
      "resize_H P = BaseConv (int (2 * cH)) (int cH) 1 1 act k5"
      "resize_M P = BaseConv (int (4 * cM)) (int cM) 1 1 act k6"
      "resize_L P = BaseConv (int (2 * cL)) (int cL) 1 1 act k7"
    and f1: "shape f1 = (n, cH, 4 * a, 4 * b)"
    and f2: "shape f2 = (n, cM, 2 * a, 2 * b)"
    and f3: "shape f3 = (n, cL, a, b)"
    and pos: "1 < a" "1 < b"
    and cpos: "0 < cH" "0 < cM" "0 < cL"
  shows "\<exists>H M L lg'. fuse P f1 f2 f3 lg = (Inr (H, M, L), lg') \<and>
           shape H = (n, cH, 4 * a, 4 * b) \<and> shape M = (n, cM, 2 * a, 2 * b) \<and>
           shape L = (n, cL, a, b)"
proof -
  obtain g3 where g3: "lram_forward (feat3_attention P) f3 = Inr g3" "shape g3 = (n, cL, a, b)"
    using lram_forward_shape [of "feat3_attention P" f3] f3 by auto
  obtain g2 where g2: "lram_forward (feat2_attention P) f2 = Inr g2"
      "shape g2 = (n, cM, 2 * a, 2 * b)"
    using lram_forward_shape [of "feat2_attention P" f2] f2 by auto
  obtain g1 where g1: "lram_forward (feat1_attention P) f1 = Inr g1"
      "shape g1 = (n, cH, 4 * a, 4 * b)"
    using lram_forward_shape [of "feat1_attention P" f1] f1 by auto
  obtain u3 where u3: "convT2d_forward (upsample_L_to_M P) g3 = Inr u3"
      "shape u3 = (n, cM, 2 * a, 2 * b)"
    using ConvTranspose2d_up_shape [OF g3(2), of "int cL" "int cM" k1] P(1) by auto
  obtain mp where mp: "torch_cat1 [g2, u3] = Inr mp" "shape mp = (n, 2 * cM, 2 * a, 2 * b)"
    using torch_cat1_pair_shape [OF g2(2) u3(2)] by auto
  obtain mu where mu: "convT2d_forward (upsample_M_to_H P) mp = Inr mu"
      "shape mu = (n, cH, 4 * a, 4 * b)"
    using ConvTranspose2d_up_shape [OF mp(2), of "int (2 * cM)" "int cH" k2] P(2) by auto
  obtain ho where ho: "torch_cat1 [g1, mu] = Inr ho" "shape ho = (n, 2 * cH, 4 * a, 4 * b)"
    using torch_cat1_pair_shape [OF g1(2) mu(2)] by auto
  obtain md where md: "SAConv2d_forward (downsample_M_to_L P) mp = Inr md"
      "shape md = (n, cL, a, b)"
    using SAConv2d_down_shape [OF mp(2) pos, of "int (2 * cM)" "int cL" k3] P(3) cpos by auto
  have ho': "shape ho = (n, 2 * cH, 2 * (2 * a), 2 * (2 * b))"
    using ho(2) by simp
  obtain hdn where hd: "SAConv2d_forward (downsample_H_to_M P) ho = Inr hdn"
      "shape hdn = (n, 2 * cM, 2 * a, 2 * b)"
    using SAConv2d_down_shape [OF ho', of "int (2 * cH)" "int (2 * cM)" k4] P(4) pos cpos
    by auto
  obtain mo where mo: "torch_cat1 [hdn, mp] = Inr mo" "shape mo = (n, 4 * cM, 2 * a, 2 * b)"
    using torch_cat1_pair_shape [OF hd(2) mp(2)] by auto
  obtain lo where lo: "torch_cat1 [g3, md] = Inr lo" "shape lo = (n, 2 * cL, a, b)"
    using torch_cat1_pair_shape [OF g3(2) md(2)] by auto
  obtain H where H: "conv2d_forward (resize_H P) ho = Inr H" "shape H = (n, cH, 4 * a, 4 * b)"
    using BaseConv_1x1_shape [OF ho(2), of "int (2 * cH)" "int cH" act k5] P(5) pos cpos by auto
  obtain M where M: "conv2d_forward (resize_M P) mo = Inr M" "shape M = (n, cM, 2 * a, 2 * b)"
    using BaseConv_1x1_shape [OF mo(2), of "int (4 * cM)" "int cM" act k6] P(6) pos cpos by auto
  obtain L where L: "conv2d_forward (resize_L P) lo = Inr L" "shape L = (n, cL, a, b)"
    using BaseConv_1x1_shape [OF lo(2), of "int (2 * cL)" "int cL" act k7] P(7) pos cpos by auto
  have "fuse P f1 f2 f3 lg = (Inr (H, M, L), lg @ map Call
          [''feat3_attention'', ''feat2_attention'', ''feat1_attention'', ''upsample_L_to_M'',
           ''torch.cat'', ''upsample_M_to_H'', ''torch.cat'', ''downsample_M_to_L'',
           ''downsample_H_to_M'', ''torch.cat'', ''torch.cat'', ''resize_H'', ''resize_M'',
           ''resize_L''])"
    unfolding fuse_def
    by (simp add: g3(1) g2(1) g1(1) u3(1) mp(1) mu(1) ho(1) md(1) hd(1) mo(1) lo(1) H(1) M(1)
          L(1) bnd_def call_Inr ret_def)
  with H(2) M(2) L(2) show ?thesis by blast
qed


subsection \<open>The profile table\<close>

text \<open>Every width of the table is a multiple of 1/8, so every base count that is a multiple of
  256 scales to a whole number.\<close>

lemma width_dict_cases:
  "map_of width_dict phi = Some w \<Longrightarrow> w \<in> {1/4, 3/8, 1/2, 3/4, 1, 5/4}"
  by (auto simp: width_dict_def split: if_splits)

lemma table_scaled:
  assumes "w \<in> {1/4, 3/8, 1/2, 3/4, 1, 5/4 :: rat}"
  obtains c :: nat where "0 < c" and "py_int (256 * w) = int c"
    and "py_int (512 * w) = int (2 * c)" and "py_int (1024 * w) = int (4 * c)"
    and "py_int (2048 * w) = int (8 * c)" and "of_int (int c) = 256 * w"
proof -
  from assms consider "w = 1/4" | "w = 3/8" | "w = 1/2" | "w = 3/4" | "w = 1" | "w = 5/4"
    by auto
  then show thesis
  proof cases
    case 1 show ?thesis by (rule that [of 64]) (simp_all add: 1 py_int_def)
  next
    case 2 show ?thesis by (rule that [of 96]) (simp_all add: 2 py_int_def)
  next
    case 3 show ?thesis by (rule that [of 128]) (simp_all add: 3 py_int_def)
  next
    case 4 show ?thesis by (rule that [of 192]) (simp_all add: 4 py_int_def)
  next
    case 5 show ?thesis by (rule that [of 256]) (simp_all add: 5 py_int_def)
  next
    case 6 show ?thesis by (rule that [of 320]) (simp_all add: 6 py_int_def)
  qed
qed

lemma SD_PFAN_init_fields:
  assumes "py_int (256 * w) = int c" and "py_int (512 * w) = int (2 * c)"
    and "py_int (1024 * w) = int (4 * c)" and "py_int (2048 * w) = int (8 * c)"
  shows "\<exists>P. SD_PFAN_init W d w feats [256, 512, 1024] dw act = Inr P \<and>
           in_features P = feats \<and>
           backbone P = PAC_CSPDarknet d w dw act (backbone_out W) \<and>
           upsample_L_to_M P = ConvTranspose2d (int (4 * c)) (int (2 * c)) 3 2 1 1
             (layer W ''upsample_L_to_M'' 0) \<and>
           upsample_M_to_H P = ConvTranspose2d (int (2 * (2 * c))) (int c) 3 2 1 1
             (layer W ''upsample_M_to_H'' 0) \<and>
           downsample_M_to_L P = SAConv2d (int (2 * (2 * c))) (int (4 * c)) 3 2 1
             (layer W ''downsample_M_to_L'' 0) \<and>
           downsample_H_to_M P = SAConv2d (int (2 * c)) (int (2 * (2 * c))) 3 2 1
             (layer W ''downsample_H_to_M'' 0) \<and>
           resize_H P = BaseConv (int (2 * c)) (int c) 1 1 act (layer W ''resize_H'' 0) \<and>
           resize_M P = BaseConv (int (4 * (2 * c))) (int (2 * c)) 1 1 act
             (layer W ''resize_M'' 0) \<and>
           resize_L P = BaseConv (int (2 * (4 * c))) (int (4 * c)) 1 1 act
             (layer W ''resize_L'' 0)"
  using assms by (simp add: SD_PFAN_init_def)

subsection \<open>One scale of the head\<close>

lemma Conv_3x3_shape:
  assumes "shape x = (n, c, h, w)" and "0 < h" and "0 < w" and "cin = int c" and "0 < cout"
  shows "\<exists>y. conv2d_forward ((if dw then DWConv else BaseConv) cin cout 3 1 act f) x = Inr y \<and>
             shape y = (n, nat cout, h, w)"
proof -
  let ?cv = "(if dw then DWConv else BaseConv) cin cout 3 1 act f"
  have cv: "?cv = Conv2d cin cout 3 1 1 f"
    by (simp add: DWConv_def BaseConv_def)
  have "(h + 2 * 1 - 3) div 1 + 1 = h" "(w + 2 * 1 - 3) div 1 + 1 = w"
    using assms by simp_all
  then show ?thesis
    unfolding cv
    using conv2d_forward_shape [of x n c h w "Conv2d cin cout 3 1 1 f"] assms
    by (simp add: Conv2d_def)
qed

lemma seq_Conv_3x3_shape:
  assumes "shape x = (n, c, h, w)" and "0 < h" and "0 < w" and "0 < c"
  shows "\<exists>y. seq_forward [(if dw then DWConv else BaseConv) (int c) (int c) 3 1 act f,
                           (if dw then DWConv else BaseConv) (int c) (int c) 3 1 act g] x = Inr y \<and>
             shape y = (n, c, h, w)"
proof -
  obtain y1 where y1:
    "conv2d_forward ((if dw then DWConv else BaseConv) (int c) (int c) 3 1 act f) x = Inr y1"
    "shape y1 = (n, c, h, w)"
    using Conv_3x3_shape [OF assms(1-3), where cin = "int c" and cout = "int c" and dw = dw
        and act = act and f = f] assms(4) by auto
  obtain y2 where y2:
    "conv2d_forward ((if dw then DWConv else BaseConv) (int c) (int c) 3 1 act g) y1 = Inr y2"
    "shape y2 = (n, c, h, w)"
    using Conv_3x3_shape [OF y1(2) assms(2,3), where cin = "int c" and cout = "int c"
        and dw = dw and act = act and f = g] assms(4) by auto
  show ?thesis using y1 y2 by simp
qed

lemma module_at_lt: "k < length ms \<Longrightarrow> module_at ms k lg = (Inr (ms ! k), lg)"
  by (simp add: module_at_def ret_def)

lemma head_branches_shapes:
  assumes k: "k < length in_chs" and c: "py_int (256 * w) = int c"
    and ck: "py_int (of_int (in_chs ! k) * w) = int ck"
    and x: "shape x = (n, ck, h, wd)" and pos: "0 < h" "0 < wd"
    and cpos: "0 < c" and ncpos: "0 < nc"
  shows "\<exists>r ob cl lg'.
           head_branches (YOLOXHead_init W nc w in_chs act dw) k x lg = (Inr (r, ob, cl), lg') \<and>
           shape r = (n, 4, h, wd) \<and> shape ob = (n, 1, h, wd) \<and> shape cl = (n, nc, h, wd)"
proof -
  let ?hm = "YOLOXHead_init W nc w in_chs act dw"
  let ?Conv = "if dw then DWConv else BaseConv"
  have st: "stems ?hm ! k = BaseConv (int ck) (int c) 1 1 act (layer W ''stems'' k)"
    and cc: "cls_convs ?hm ! k =
               [?Conv (int c) (int c) 3 1 act (layer W ''cls_convs.0'' k),
                ?Conv (int c) (int c) 3 1 act (layer W ''cls_convs.1'' k)]"
    and rc: "reg_convs ?hm ! k =
               [?Conv (int c) (int c) 3 1 act (layer W ''reg_convs.0'' k),
                ?Conv (int c) (int c) 3 1 act (layer W ''reg_convs.1'' k)]"
    and cp: "cls_preds ?hm ! k = Conv2d (int c) (int nc) 1 1 0 (layer W ''cls_preds'' k)"
    and rp: "reg_preds ?hm ! k = Conv2d (int c) 4 1 1 0 (layer W ''reg_preds'' k)"
    and op: "obj_preds ?hm ! k = Conv2d (int c) 1 1 1 0 (layer W ''obj_preds'' k)"
    using k c ck by (simp_all add: YOLOXHead_init_def Let_def)
  have len: "k < length (stems ?hm)" "k < length (cls_convs ?hm)" "k < length (reg_convs ?hm)"
    "k < length (cls_preds ?hm)" "k < length (reg_preds ?hm)" "k < length (obj_preds ?hm)"
    using k by (simp_all add: YOLOXHead_init_def Let_def)
  obtain s where s: "conv2d_forward (stems ?hm ! k) x = Inr s" "shape s = (n, c, h, wd)"
    using BaseConv_1x1_shape [OF x pos, of "int ck" "int c" act "layer W ''stems'' k"] st
      cpos
    by auto
  obtain cf where cf: "seq_forward (cls_convs ?hm ! k) s = Inr cf" "shape cf = (n, c, h, wd)"
    using seq_Conv_3x3_shape [OF s(2) pos cpos, of dw act] cc by metis
  obtain cl where cl: "conv2d_forward (cls_preds ?hm ! k) cf = Inr cl"
      "shape cl = (n, nc, h, wd)"
    using Conv2d_1x1_shape [OF cf(2) pos, of "int c" "int nc"] cp ncpos by auto
  obtain rf where rf: "seq_forward (reg_convs ?hm ! k) s = Inr rf" "shape rf = (n, c, h, wd)"
    using seq_Conv_3x3_shape [OF s(2) pos cpos, of dw act] rc by metis
  obtain r where r: "conv2d_forward (reg_preds ?hm ! k) rf = Inr r" "shape r = (n, 4, h, wd)"
    using Conv2d_1x1_shape [OF rf(2) pos, of "int c" 4] rp by auto
  obtain ob where ob: "conv2d_forward (obj_preds ?hm ! k) rf = Inr ob"
      "shape ob = (n, 1, h, wd)"
    using Conv2d_1x1_shape [OF rf(2) pos, of "int c" 1] op by auto
  have "\<exists>lg'. head_branches ?hm k x lg = (Inr (r, ob, cl), lg')"
    unfolding head_branches_def
    by (simp add: bnd_def module_at_lt len s(1) cf(1) cl(1) rf(1) r(1) ob(1) call_Inr ret_def)
  with r(2) ob(2) cl(2) show ?thesis by blast
qed

subsection \<open>Construction and feature lookup\<close>

lemma profile_names:
  assumes "phi \<in> {''nano'', ''tiny'', ''s'', ''m'', ''l'', ''x''}"
  shows "map_of depth_dict phi \<noteq> None \<and> map_of width_dict phi \<noteq> None"
proof -
  from assms consider "phi = ''nano''" | "phi = ''tiny''" | "phi = ''s''" | "phi = ''m''"
    | "phi = ''l''" | "phi = ''x''" by blast
  then show ?thesis
    by cases (simp_all add: depth_dict_def width_dict_def)
qed

lemma YoloBody_init_ok:
  assumes "map_of depth_dict phi = Some depth" and "map_of width_dict phi = Some width"
  shows "\<exists>M. YoloBody_init W num_classes phi lg =
           (Inr M, lg @ [Instantiate ''SD_PFAN'', Instantiate ''YOLOXHead'']) \<and>
         SD_PFAN_init W depth width [''dark3'', ''dark4'', ''dark5''] [256, 512, 1024]
           (phi = ''nano'') ''silu'' = Inr (yb_backbone M) \<and>
         backbone (yb_backbone M) =
           PAC_CSPDarknet depth width (phi = ''nano'') ''silu'' (backbone_out W) \<and>
         yb_head M = YOLOXHead_init W num_classes width [256, 512, 1024] ''silu''
                       (phi = ''nano'')"
  using assms
  by (simp add: YoloBody_init_def SD_PFAN_init_def bnd_def emit_def lift_def ret_def)

lemma lookup_all_missing:
  "\<exists>f \<in> set fs. m f = None \<Longrightarrow>
   \<exists>f \<in> set fs. m f = None \<and> lookup_all m fs lg = (Inl (KeyError f), lg)"
proof (induction fs)
  case Nil
  then show ?case by simp
next
  case (Cons g fs)
  show ?case
  proof (cases "m g")
    case None
    then have "lookup_all m (g # fs) lg = (Inl (KeyError g), lg)"
      by (simp add: raise_def)
    with None show ?thesis by auto
  next
    case (Some v)
    with Cons.prems have "\<exists>f \<in> set fs. m f = None" by auto
    from Cons.IH [OF this] obtain f where f: "f \<in> set fs" "m f = None"
      "lookup_all m fs lg = (Inl (KeyError f), lg)" by blast
    have "lookup_all m (g # fs) lg = (Inl (KeyError f), lg)"
      using Some f(3) by (simp add: bnd_def)
    with f(1,2) show ?thesis by auto
  qed
qed

lemma SD_PFAN_init_gates:
  assumes "py_int (256 * w) = int c" and "py_int (512 * w) = int (2 * c)"
    and "py_int (1024 * w) = int (4 * c)"
  shows "\<exists>P. SD_PFAN_init W d w feats [256, 512, 1024] dw act = Inr P \<and>
           feat1_attention P = LRAM (int c) (int c) (layer W ''feat1_attention'' 0) \<and>
           feat2_attention P = LRAM (int (2 * c)) (int (2 * c)) (layer W ''feat2_attention'' 0) \<and>
           feat3_attention P = LRAM (int (4 * c)) (int (4 * c)) (layer W ''feat3_attention'' 0)"
  using assms by (simp add: SD_PFAN_init_def)

lemma lookup_all_three:
  assumes "m a = Some x" and "m b = Some y" and "m c = Some z"
  shows "lookup_all m [a, b, c] lg = (Inr [x, y, z], lg)"
  using assms by (simp add: bnd_def ret_def)

lemma SD_PFAN_forward_fuse:
  assumes "in_features P = [a, b, c]"
    and "d_run (backbone P) x a = Some f1" and "d_run (backbone P) x b = Some f2"
    and "d_run (backbone P) x c = Some f3"
  shows "SD_PFAN_forward P x lg = fuse P f1 f2 f3 (lg @ [Call ''backbone''])"
  unfolding SD_PFAN_forward_def bnd_def
  by (simp only: call_Inr lookup_all_three [OF assms(2-4)] assms(1) prod.case sum.case
        list.case)

lemma SD_PFAN_forward_shapes:
  assumes w: "w \<in> {1/4, 3/8, 1/2, 3/4, 1, 5/4}"
    and init: "SD_PFAN_init W d w [''dark3'', ''dark4'', ''dark5''] [256, 512, 1024] dw act = Inr P"
    and feats: "backbone_out W x ''dark3'' = Some f1" "backbone_out W x ''dark4'' = Some f2"
      "backbone_out W x ''dark5'' = Some f3"
    and f1: "shape f1 = (n, nat (py_int (256 * w)), 4 * a, 4 * b)"
    and f2: "shape f2 = (n, nat (py_int (512 * w)), 2 * a, 2 * b)"
    and f3: "shape f3 = (n, nat (py_int (1024 * w)), a, b)"
    and pos: "1 < a" "1 < b"
  shows "\<exists>H M L lg'. SD_PFAN_forward P x lg = (Inr (H, M, L), lg') \<and>
           shape H = (n, nat (py_int (256 * w)), 4 * a, 4 * b) \<and>
           shape M = (n, nat (py_int (512 * w)), 2 * a, 2 * b) \<and>
           shape L = (n, nat (py_int (1024 * w)), a, b)"
proof -
  from w obtain c :: nat where cp: "0 < c"
    and c: "py_int (256 * w) = int c" "py_int (512 * w) = int (2 * c)"
    "py_int (1024 * w) = int (4 * c)" "py_int (2048 * w) = int (8 * c)"
    by (rule table_scaled)
  have cpos: "0 < c" "0 < 2 * c" "0 < 4 * c"
    using cp by simp_all
  from SD_PFAN_init_fields [OF c, of W d "[''dark3'', ''dark4'', ''dark5'']" dw act] init
  have P: "in_features P = [''dark3'', ''dark4'', ''dark5'']"
    "backbone P = PAC_CSPDarknet d w dw act (backbone_out W)"
    "upsample_L_to_M P = ConvTranspose2d (int (4 * c)) (int (2 * c)) 3 2 1 1
       (layer W ''upsample_L_to_M'' 0)"
    "upsample_M_to_H P = ConvTranspose2d (int (2 * (2 * c))) (int c) 3 2 1 1
       (layer W ''upsample_M_to_H'' 0)"
    "downsample_M_to_L P = SAConv2d (int (2 * (2 * c))) (int (4 * c)) 3 2 1
       (layer W ''downsample_M_to_L'' 0)"
    "downsample_H_to_M P = SAConv2d (int (2 * c)) (int (2 * (2 * c))) 3 2 1
       (layer W ''downsample_H_to_M'' 0)"
    "resize_H P = BaseConv (int (2 * c)) (int c) 1 1 act (layer W ''resize_H'' 0)"
    "resize_M P = BaseConv (int (4 * (2 * c))) (int (2 * c)) 1 1 act (layer W ''resize_M'' 0)"
    "resize_L P = BaseConv (int (2 * (4 * c))) (int (4 * c)) 1 1 act (layer W ''resize_L'' 0)"
    by auto
  have run: "d_run (backbone P) = backbone_out W"
    by (simp add: P(2) PAC_CSPDarknet_def)
  have s1: "shape f1 = (n, c, 4 * a, 4 * b)" and s2: "shape f2 = (n, 2 * c, 2 * a, 2 * b)"
    and s3: "shape f3 = (n, 4 * c, a, b)"
    using f1 f2 f3 c by simp_all
  have fw: "SD_PFAN_forward P x lg = fuse P f1 f2 f3 (lg @ [Call ''backbone''])"
    by (rule SD_PFAN_forward_fuse [OF P(1)]) (simp_all add: run feats)
  have n: "nat (py_int (256 * w)) = c" "nat (py_int (512 * w)) = 2 * c"
    "nat (py_int (1024 * w)) = 4 * c"
    by (simp_all only: c nat_int)
  from fuse_shapes [OF P(3-9) s1 s2 s3 pos cpos, of "lg @ [Call ''backbone'']"]
  show ?thesis
    unfolding fw n by blast
qed

subsection \<open>The whole model\<close>

lemma torch_cat1_triple_shape:
  assumes "shape a = (n, ca, h, w)" and "shape b = (n, cb, h, w)" and "shape c = (n, cc, h, w)"
  shows "\<exists>y. torch_cat1 [a, b, c] = Inr y \<and> shape y = (n, ca + cb + cc, h, w) \<and>
             y = a\<lparr>chans := chans a @ chans b @ chans c\<rparr>"
  using assms by (simp add: torch_cat1_def shape_def)

lemma head_scale_shapes:
  assumes k: "k < length in_chs" and c: "py_int (256 * w) = int c"
    and ck: "py_int (of_int (in_chs ! k) * w) = int ck"
    and x: "shape x = (n, ck, h, wd)" and pos: "0 < h" "0 < wd"
    and cpos: "0 < c" and ncpos: "0 < nc"
  shows "\<exists>out lg'.
           head_scale (YOLOXHead_init W nc w in_chs act dw) k x lg = (Inr out, lg') \<and>
           shape out = (n, 4 + 1 + nc, h, wd)"
proof -
  from head_branches_shapes [OF k c ck x pos cpos ncpos, where W = W and act = act
      and dw = dw and lg = lg]
  obtain r ob cl lg1 where br:
    "head_branches (YOLOXHead_init W nc w in_chs act dw) k x lg = (Inr (r, ob, cl), lg1)"
    "shape r = (n, 4, h, wd)" "shape ob = (n, 1, h, wd)" "shape cl = (n, nc, h, wd)"
    by blast
  from torch_cat1_triple_shape [OF br(2-4)]
  obtain out where out: "torch_cat1 [r, ob, cl] = Inr out" "shape out = (n, 4 + 1 + nc, h, wd)"
    by blast
  have "head_scale (YOLOXHead_init W nc w in_chs act dw) k x lg
          = (Inr out, lg1 @ [Call ''torch.cat''])"
    unfolding head_scale_def bnd_def
    by (simp only: br(1) out(1) call_Inr prod.case sum.case)
  with out(2) show ?thesis by blast
qed

lemma YOLOXHead_forward_three:
  assumes "head_scale hm 0 x0 lg = (Inr o0, lg0)"
    and "head_scale hm (Suc 0) x1 lg0 = (Inr o1, lg1)"
    and "head_scale hm (Suc (Suc 0)) x2 lg1 = (Inr o2, lg2)"
  shows "YOLOXHead_forward hm [x0, x1, x2] lg = (Inr [o0, o1, o2], lg2)"
  unfolding YOLOXHead_forward_def head_loop.simps bnd_def
  by (simp only: assms prod.case sum.case append.simps ret_def)

lemma width_dict_names:
  "map_of width_dict phi = Some w \<Longrightarrow> phi \<in> {''nano'', ''tiny'', ''s'', ''m'', ''l'', ''x''}"
  by (auto simp: width_dict_def split: if_splits)

lemma YoloBody_run_shapes:
  assumes w: "map_of width_dict phi = Some w"
    and feats: "backbone_out W x ''dark3'' = Some f1" "backbone_out W x ''dark4'' = Some f2"
      "backbone_out W x ''dark5'' = Some f3"
    and f1: "shape f1 = (n, nat (py_int (256 * w)), 4 * a, 4 * b)"
    and f2: "shape f2 = (n, nat (py_int (512 * w)), 2 * a, 2 * b)"
    and f3: "shape f3 = (n, nat (py_int (1024 * w)), a, b)"
    and pos: "1 < a" "1 < b"
    and ncpos: "0 < num_classes"
  shows "\<exists>o1 o2 o3 lg'.
           YoloBody_run W num_classes phi x lg = (Inr [o1, o2, o3], lg') \<and>
           shape o1 = (n, 4 + 1 + num_classes, 4 * a, 4 * b) \<and>
           shape o2 = (n, 4 + 1 + num_classes, 2 * a, 2 * b) \<and>
           shape o3 = (n, 4 + 1 + num_classes, a, b)"
proof -
  let ?chs = "[256, 512, 1024] :: int list"
  from profile_names [OF width_dict_names [OF w]] have "map_of depth_dict phi \<noteq> None"
    by simp
  then obtain d where d: "map_of depth_dict phi = Some d" by blast
  from YoloBody_init_ok [OF d w, of W num_classes lg]
  obtain B where B: "YoloBody_init W num_classes phi lg =
      (Inr B, lg @ [Instantiate ''SD_PFAN'', Instantiate ''YOLOXHead''])"
    "SD_PFAN_init W d w [''dark3'', ''dark4'', ''dark5''] ?chs (phi = ''nano'') ''silu''
       = Inr (yb_backbone B)"
    "yb_head B = YOLOXHead_init W num_classes w ?chs ''silu'' (phi = ''nano'')"
    by blast
  let ?lg1 = "lg @ [Instantiate ''SD_PFAN'', Instantiate ''YOLOXHead'']"
  from width_dict_cases [OF w] obtain c :: nat
    where cp: "0 < c"
      and c: "py_int (256 * w) = int c" "py_int (512 * w) = int (2 * c)"
      "py_int (1024 * w) = int (4 * c)"
    by (rule table_scaled)
  have n: "nat (py_int (256 * w)) = c" "nat (py_int (512 * w)) = 2 * c"
    "nat (py_int (1024 * w)) = 4 * c"
    by (simp_all only: c nat_int)
  from SD_PFAN_forward_shapes [OF width_dict_cases [OF w] B(2) feats f1 f2 f3 pos, of ?lg1]
  obtain H M L lg2 where fw: "SD_PFAN_forward (yb_backbone B) x ?lg1 = (Inr (H, M, L), lg2)"
    "shape H = (n, c, 4 * a, 4 * b)" "shape M = (n, 2 * c, 2 * a, 2 * b)"
    "shape L = (n, 4 * c, a, b)"
    unfolding n by blast
  have k: "0 < length ?chs" "Suc 0 < length ?chs" "Suc (Suc 0) < length ?chs" by simp_all
  have ck: "py_int (of_int (?chs ! 0) * w) = int c"
    "py_int (of_int (?chs ! Suc 0) * w) = int (2 * c)"
    "py_int (of_int (?chs ! Suc (Suc 0)) * w) = int (4 * c)"
    using c by simp_all
  have pos4: "0 < 4 * a" "0 < 4 * b" and pos2: "0 < 2 * a" "0 < 2 * b"
    and pos1: "0 < a" "0 < b"
    using pos by simp_all
  from head_scale_shapes [OF k(1) c(1) ck(1) fw(2) pos4 cp ncpos, where W = W
      and act = "''silu''" and dw = "phi = ''nano''" and lg = lg2]
  obtain o1 lg3 where o1: "head_scale (yb_head B) 0 H lg2 = (Inr o1, lg3)"
    "shape o1 = (n, 4 + 1 + num_classes, 4 * a, 4 * b)"
    unfolding B(3) by blast
  from head_scale_shapes [OF k(2) c(1) ck(2) fw(3) pos2 cp ncpos, where W = W
      and act = "''silu''" and dw = "phi = ''nano''" and lg = lg3]
  obtain o2 lg4 where o2: "head_scale (yb_head B) (Suc 0) M lg3 = (Inr o2, lg4)"
    "shape o2 = (n, 4 + 1 + num_classes, 2 * a, 2 * b)"
    unfolding B(3) by blast
  from head_scale_shapes [OF k(3) c(1) ck(3) fw(4) pos1 cp ncpos, where W = W
      and act = "''silu''" and dw = "phi = ''nano''" and lg = lg4]
  obtain o3 lg5 where o3: "head_scale (yb_head B) (Suc (Suc 0)) L lg4 = (Inr o3, lg5)"
    "shape o3 = (n, 4 + 1 + num_classes, a, b)"
    unfolding B(3) by blast
  have "YoloBody_run W num_classes phi x lg = (Inr [o1, o2, o3], lg5)"
    unfolding YoloBody_run_def YoloBody_forward_def bnd_def
    by (simp only: B(1) fw(1) prod.case sum.case
          YOLOXHead_forward_three [OF o1(1) o2(1) o3(1)])
  with o1(2) o2(2) o3(2) show ?thesis by blast
qed

subsection \<open>Inputs on which the model raises\<close>

lemma fst_bnd_Inl: "fst (m lg) = Inl e \<Longrightarrow> fst (bnd m f lg) = Inl e"
  by (cases "m lg") (simp add: bnd_def)

lemma torch_cat1_height_mismatch: "dimH a \<noteq> dimH b \<Longrightarrow> torch_cat1 [a, b] = Inl RuntimeError"
  by (auto simp: torch_cat1_def)

lemma fuse_size_mismatch:
  assumes up: "upsample_L_to_M P = ConvTranspose2d (int cL) (int cM) 3 2 1 1 k1"
    and f2: "shape f2 = (n, c2, h2, w2)" and f3: "shape f3 = (n3, cL, a, b)"
    and ne: "h2 \<noteq> 2 * a"
  shows "fst (fuse P f1 f2 f3 lg) = Inl RuntimeError"
proof -
  obtain g3 where g3: "lram_forward (feat3_attention P) f3 = Inr g3" "shape g3 = (n3, cL, a, b)"
    using lram_forward_shape [of "feat3_attention P" f3] f3 by auto
  obtain g2 where g2: "lram_forward (feat2_attention P) f2 = Inr g2"
      "shape g2 = (n, c2, h2, w2)"
    using lram_forward_shape [of "feat2_attention P" f2] f2 by auto
  obtain g1 where g1: "lram_forward (feat1_attention P) f1 = Inr g1"
    using lram_forward_shape [of "feat1_attention P" f1] by auto
  obtain u3 where u3: "convT2d_forward (upsample_L_to_M P) g3 = Inr u3"
      "shape u3 = (n3, cM, 2 * a, 2 * b)"
    using ConvTranspose2d_up_shape [OF g3(2), of "int cL" "int cM" k1] up by auto
  from g2(2) u3(2) ne have "dimH g2 \<noteq> dimH u3"
    by (simp add: shape_def)
  then have cat: "torch_cat1 [g2, u3] = Inl RuntimeError"
    by (rule torch_cat1_height_mismatch)
  show ?thesis
    unfolding fuse_def bnd_def
    by (simp only: g3(1) g2(1) g1(1) u3(1) cat call_Inr call_Inl prod.case sum.case fst_conv)
qed

lemma YoloBody_run_size_mismatch:
  assumes w: "map_of width_dict phi = Some w"
    and feats: "backbone_out W x ''dark3'' = Some f1" "backbone_out W x ''dark4'' = Some f2"
      "backbone_out W x ''dark5'' = Some f3"
    and f2: "shape f2 = (n, c2, h2, w2)"
    and f3: "shape f3 = (n3, nat (py_int (1024 * w)), a, b)"
    and ne: "h2 \<noteq> 2 * a"
  shows "fst (YoloBody_run W num_classes phi x lg) = Inl RuntimeError"
proof -
  let ?chs = "[256, 512, 1024] :: int list"
  let ?feats = "[''dark3'', ''dark4'', ''dark5'']"
  from profile_names [OF width_dict_names [OF w]] have "map_of depth_dict phi \<noteq> None"
    by simp
  then obtain d where d: "map_of depth_dict phi = Some d" by blast
  from YoloBody_init_ok [OF d w, of W num_classes lg]
  obtain B where B: "YoloBody_init W num_classes phi lg =
      (Inr B, lg @ [Instantiate ''SD_PFAN'', Instantiate ''YOLOXHead''])"
    "SD_PFAN_init W d w ?feats ?chs (phi = ''nano'') ''silu'' = Inr (yb_backbone B)"
    by blast
  let ?lg1 = "lg @ [Instantiate ''SD_PFAN'', Instantiate ''YOLOXHead'']"
  from width_dict_cases [OF w] obtain c :: nat
    where c: "py_int (256 * w) = int c" "py_int (512 * w) = int (2 * c)"
      "py_int (1024 * w) = int (4 * c)" "py_int (2048 * w) = int (8 * c)"
    by (rule table_scaled)
  have n: "nat (py_int (1024 * w)) = 4 * c"
    by (simp only: c nat_int)
  from SD_PFAN_init_fields [OF c, of W d ?feats "phi = ''nano''" "''silu''"] B(2)
  have P: "in_features (yb_backbone B) = ?feats"
    "backbone (yb_backbone B) = PAC_CSPDarknet d w (phi = ''nano'') ''silu'' (backbone_out W)"
    "upsample_L_to_M (yb_backbone B) = ConvTranspose2d (int (4 * c)) (int (2 * c)) 3 2 1 1
       (layer W ''upsample_L_to_M'' 0)"
    by auto
  have run: "d_run (backbone (yb_backbone B)) = backbone_out W"
    by (simp add: P(2) PAC_CSPDarknet_def)
  have fw: "SD_PFAN_forward (yb_backbone B) x ?lg1
              = fuse (yb_backbone B) f1 f2 f3 (?lg1 @ [Call ''backbone''])"
    by (rule SD_PFAN_forward_fuse [OF P(1)]) (simp_all add: run feats)
  have "fst (SD_PFAN_forward (yb_backbone B) x ?lg1) = Inl RuntimeError"
    unfolding fw by (rule fuse_size_mismatch [OF P(3) f2 f3 [unfolded n] ne])
  then have "fst (YoloBody_forward B x ?lg1) = Inl RuntimeError"
    unfolding YoloBody_forward_def by (rule fst_bnd_Inl)
  then show ?thesis
    unfolding YoloBody_run_def bnd_def by (simp only: B(1) prod.case sum.case)
qed

lemma fuse_small_input:
  assumes P: "upsample_L_to_M P = ConvTranspose2d (int cL) (int cM) 3 2 1 1 k1"
      "upsample_M_to_H P = ConvTranspose2d (int (2 * cM)) (int cH) 3 2 1 1 k2"
    and f1: "shape f1 = (n, cH, 4 * a, 4 * b)"
    and f2: "shape f2 = (n, cM, 2 * a, 2 * b)"
    and f3: "shape f3 = (n, cL, a, b)"
    and small: "a \<le> 1"
  shows "fst (fuse P f1 f2 f3 lg) = Inl RuntimeError"
proof -
  obtain g3 where g3: "lram_forward (feat3_attention P) f3 = Inr g3" "shape g3 = (n, cL, a, b)"
    using lram_forward_shape [of "feat3_attention P" f3] f3 by auto
  obtain g2 where g2: "lram_forward (feat2_attention P) f2 = Inr g2"
      "shape g2 = (n, cM, 2 * a, 2 * b)"
    using lram_forward_shape [of "feat2_attention P" f2] f2 by auto
  obtain g1 where g1: "lram_forward (feat1_attention P) f1 = Inr g1"
      "shape g1 = (n, cH, 4 * a, 4 * b)"
    using lram_forward_shape [of "feat1_attention P" f1] f1 by auto
  obtain u3 where u3: "convT2d_forward (upsample_L_to_M P) g3 = Inr u3"
      "shape u3 = (n, cM, 2 * a, 2 * b)"
    using ConvTranspose2d_up_shape [OF g3(2), of "int cL" "int cM" k1] P(1) by auto
  obtain mp where mp: "torch_cat1 [g2, u3] = Inr mp" "shape mp = (n, 2 * cM, 2 * a, 2 * b)"
    using torch_cat1_pair_shape [OF g2(2) u3(2)] by auto
  obtain mu where mu: "convT2d_forward (upsample_M_to_H P) mp = Inr mu"
      "shape mu = (n, cH, 4 * a, 4 * b)"
    using ConvTranspose2d_up_shape [OF mp(2), of "int (2 * cM)" "int cH" k2] P(2) by auto
  obtain ho where ho: "torch_cat1 [g1, mu] = Inr ho"
    using torch_cat1_pair_shape [OF g1(2) mu(2)] by auto
  from mp(2) small have "dimH mp \<le> 2"
    by (simp add: shape_def)
  then have md: "SAConv2d_forward (downsample_M_to_L P) mp = Inl RuntimeError"
    by (rule SAConv2d_small_input)
  show ?thesis
    unfolding fuse_def bnd_def
    by (simp only: g3(1) g2(1) g1(1) u3(1) mp(1) mu(1) ho(1) md call_Inr call_Inl prod.case
          sum.case fst_conv)
qed

lemma SD_PFAN_init_in_features:
  assumes "SD_PFAN_init W d w feats chs dw act = Inr P"
  shows "in_features P = feats"
  using assms by (cases "length chs < 3") (auto simp: SD_PFAN_init_def)

lemma YoloBody_run_unfold:
  assumes w: "map_of width_dict phi = Some w"
    and feats: "backbone_out W x ''dark3'' = Some f1" "backbone_out W x ''dark4'' = Some f2"
      "backbone_out W x ''dark5'' = Some f3"
  shows "\<exists>B d lg1.
           SD_PFAN_init W d w [''dark3'', ''dark4'', ''dark5''] [256, 512, 1024]
             (phi = ''nano'') ''silu'' = Inr (yb_backbone B) \<and>
           yb_head B = YOLOXHead_init W num_classes w [256, 512, 1024] ''silu''
                         (phi = ''nano'') \<and>
           (\<forall>lg'. SD_PFAN_forward (yb_backbone B) x lg'
                    = fuse (yb_backbone B) f1 f2 f3 (lg' @ [Call ''backbone''])) \<and>
           YoloBody_run W num_classes phi x lg = YoloBody_forward B x lg1"
proof -
  let ?chs = "[256, 512, 1024] :: int list"
  let ?feats = "[''dark3'', ''dark4'', ''dark5'']"
  from profile_names [OF width_dict_names [OF w]] have "map_of depth_dict phi \<noteq> None"
    by simp
  then obtain d where d: "map_of depth_dict phi = Some d" by blast
  from YoloBody_init_ok [OF d w, of W num_classes lg]
  obtain B where B: "YoloBody_init W num_classes phi lg =
      (Inr B, lg @ [Instantiate ''SD_PFAN'', Instantiate ''YOLOXHead''])"
    "SD_PFAN_init W d w ?feats ?chs (phi = ''nano'') ''silu'' = Inr (yb_backbone B)"
    "backbone (yb_backbone B) =
       PAC_CSPDarknet d w (phi = ''nano'') ''silu'' (backbone_out W)"
    "yb_head B = YOLOXHead_init W num_classes w ?chs ''silu'' (phi = ''nano'')"
    by blast
  from B(2) have fs: "in_features (yb_backbone B) = ?feats"
    by (rule SD_PFAN_init_in_features)
  have run: "d_run (backbone (yb_backbone B)) = backbone_out W"
    by (simp add: B(3) PAC_CSPDarknet_def)
  have fw: "SD_PFAN_forward (yb_backbone B) x lg'
              = fuse (yb_backbone B) f1 f2 f3 (lg' @ [Call ''backbone''])" for lg'
    by (rule SD_PFAN_forward_fuse [OF fs]) (simp_all add: run feats)
  have "YoloBody_run W num_classes phi x lg
          = YoloBody_forward B x (lg @ [Instantiate ''SD_PFAN'', Instantiate ''YOLOXHead''])"
    unfolding YoloBody_run_def bnd_def by (simp only: B(1) prod.case sum.case)
  with B(2,4) fw show ?thesis by blast
qed

lemma YoloBody_run_small_input:
  assumes w: "map_of width_dict phi = Some w"
    and feats: "backbone_out W x ''dark3'' = Some f1" "backbone_out W x ''dark4'' = Some f2"
      "backbone_out W x ''dark5'' = Some f3"
    and f1: "shape f1 = (n, nat (py_int (256 * w)), 4 * a, 4 * b)"
    and f2: "shape f2 = (n, nat (py_int (512 * w)), 2 * a, 2 * b)"
    and f3: "shape f3 = (n, nat (py_int (1024 * w)), a, b)"
    and small: "a \<le> 1"
  shows "fst (YoloBody_run W num_classes phi x lg) = Inl RuntimeError"
proof -
  let ?feats = "[''dark3'', ''dark4'', ''dark5'']"
  from YoloBody_run_unfold [OF w feats, of num_classes lg]
  obtain B d lg1 where B:
    "SD_PFAN_init W d w ?feats [256, 512, 1024] (phi = ''nano'') ''silu'' = Inr (yb_backbone B)"
    "\<forall>lg'. SD_PFAN_forward (yb_backbone B) x lg'
            = fuse (yb_backbone B) f1 f2 f3 (lg' @ [Call ''backbone''])"
    "YoloBody_run W num_classes phi x lg = YoloBody_forward B x lg1"
    by blast
  from width_dict_cases [OF w] obtain c :: nat
    where c: "py_int (256 * w) = int c" "py_int (512 * w) = int (2 * c)"
      "py_int (1024 * w) = int (4 * c)" "py_int (2048 * w) = int (8 * c)"
    by (rule table_scaled)
  have n: "nat (py_int (256 * w)) = c" "nat (py_int (512 * w)) = 2 * c"
    "nat (py_int (1024 * w)) = 4 * c"
    by (simp_all only: c nat_int)
  from SD_PFAN_init_fields [OF c, of W d ?feats "phi = ''nano''" "''silu''"] B(1)
  have P: "upsample_L_to_M (yb_backbone B) = ConvTranspose2d (int (4 * c)) (int (2 * c)) 3 2 1 1
       (layer W ''upsample_L_to_M'' 0)"
    "upsample_M_to_H (yb_backbone B) = ConvTranspose2d (int (2 * (2 * c))) (int c) 3 2 1 1
       (layer W ''upsample_M_to_H'' 0)"
    by auto
  have "fst (SD_PFAN_forward (yb_backbone B) x lg1) = Inl RuntimeError"
    unfolding B(2) [rule_format]
    by (rule fuse_small_input [OF P f1 [unfolded n] f2 [unfolded n] f3 [unfolded n] small])
  then have "fst (YoloBody_forward B x lg1) = Inl RuntimeError"
    unfolding YoloBody_forward_def by (rule fst_bnd_Inl)
  then show ?thesis
    unfolding B(3) .
qed

lemma SD_PFAN_run_small_input:
  assumes w: "w \<in> {1/4, 3/8, 1/2, 3/4, 1, 5/4}"
    and feats: "backbone_out W x ''dark3'' = Some f1" "backbone_out W x ''dark4'' = Some f2"
      "backbone_out W x ''dark5'' = Some f3"
    and f1: "shape f1 = (n, nat (py_int (256 * w)), 4 * a, 4 * b)"
    and f2: "shape f2 = (n, nat (py_int (512 * w)), 2 * a, 2 * b)"
    and f3: "shape f3 = (n, nat (py_int (1024 * w)), a, b)"
    and small: "a \<le> 1"
  shows "fst (SD_PFAN_run W d w x lg) = Inl RuntimeError"
proof -
  let ?feats = "[''dark3'', ''dark4'', ''dark5'']"
  from w obtain c :: nat
    where c: "py_int (256 * w) = int c" "py_int (512 * w) = int (2 * c)"
      "py_int (1024 * w) = int (4 * c)" "py_int (2048 * w) = int (8 * c)"
    by (rule table_scaled)
  have n: "nat (py_int (256 * w)) = c" "nat (py_int (512 * w)) = 2 * c"
    "nat (py_int (1024 * w)) = 4 * c"
    by (simp_all only: c nat_int)
  from SD_PFAN_init_fields [OF c, of W d ?feats False "''silu''"]
  obtain P where P: "SD_PFAN_init W d w ?feats [256, 512, 1024] False ''silu'' = Inr P"
    "in_features P = ?feats"
    "backbone P = PAC_CSPDarknet d w False ''silu'' (backbone_out W)"
    "upsample_L_to_M P = ConvTranspose2d (int (4 * c)) (int (2 * c)) 3 2 1 1
       (layer W ''upsample_L_to_M'' 0)"
    "upsample_M_to_H P = ConvTranspose2d (int (2 * (2 * c))) (int c) 3 2 1 1
       (layer W ''upsample_M_to_H'' 0)"
    by blast
  have run: "d_run (backbone P) = backbone_out W"
    by (simp add: P(3) PAC_CSPDarknet_def)
  have fw: "SD_PFAN_forward P x lg = fuse P f1 f2 f3 (lg @ [Call ''backbone''])"
    by (rule SD_PFAN_forward_fuse [OF P(2)]) (simp_all add: run feats)
  have "fst (SD_PFAN_forward P x lg) = Inl RuntimeError"
    unfolding fw
    by (rule fuse_small_input [OF P(4,5) f1 [unfolded n] f2 [unfolded n] f3 [unfolded n] small])
  then show ?thesis
    unfolding SD_PFAN_run_def bnd_def
    by (simp add: P(1) lift_def ret_def split: prod.splits sum.splits)
qed

lemma head_branches_no_classes:
  assumes k: "k < length in_chs" and c: "py_int (256 * w) = int c"
    and ck: "py_int (of_int (in_chs ! k) * w) = int ck"
    and x: "shape x = (n, ck, h, wd)" and pos: "0 < h" "0 < wd" and cpos: "0 < c"
  shows "fst (head_branches (YOLOXHead_init W 0 w in_chs act dw) k x lg) = Inl RuntimeError"
proof -
  let ?hm = "YOLOXHead_init W 0 w in_chs act dw"
  let ?Conv = "if dw then DWConv else BaseConv"
  have st: "stems ?hm ! k = BaseConv (int ck) (int c) 1 1 act (layer W ''stems'' k)"
    and cc: "cls_convs ?hm ! k =
               [?Conv (int c) (int c) 3 1 act (layer W ''cls_convs.0'' k),
                ?Conv (int c) (int c) 3 1 act (layer W ''cls_convs.1'' k)]"
    and cp: "out_channels (cls_preds ?hm ! k) = 0"
    using k c ck by (simp_all add: YOLOXHead_init_def Let_def Conv2d_def)
  have len: "k < length (stems ?hm)" "k < length (cls_convs ?hm)" "k < length (cls_preds ?hm)"
    using k by (simp_all add: YOLOXHead_init_def Let_def)
  obtain s where s: "conv2d_forward (stems ?hm ! k) x = Inr s" "shape s = (n, c, h, wd)"
    using BaseConv_1x1_shape [OF x pos, of "int ck" "int c" act "layer W ''stems'' k"] st
      cpos
    by auto
  obtain cf where cf: "seq_forward (cls_convs ?hm ! k) s = Inr cf"
    using seq_Conv_3x3_shape [OF s(2) pos cpos, of dw act] cc by metis
  have cl: "conv2d_forward (cls_preds ?hm ! k) cf = Inl RuntimeError"
    by (simp add: conv2d_forward_def cp)
  show ?thesis
    unfolding head_branches_def bnd_def
    by (simp only: module_at_lt [OF len(1)] module_at_lt [OF len(2)] module_at_lt [OF len(3)]
          s(1) cf cl call_Inr call_Inl prod.case sum.case fst_conv)
qed

lemma YoloBody_run_no_classes:
  assumes w: "map_of width_dict phi = Some w"
    and feats: "backbone_out W x ''dark3'' = Some f1" "backbone_out W x ''dark4'' = Some f2"
      "backbone_out W x ''dark5'' = Some f3"
    and f1: "shape f1 = (n, nat (py_int (256 * w)), 4 * a, 4 * b)"
    and f2: "shape f2 = (n, nat (py_int (512 * w)), 2 * a, 2 * b)"
    and f3: "shape f3 = (n, nat (py_int (1024 * w)), a, b)"
    and pos: "1 < a" "1 < b"
  shows "fst (YoloBody_run W 0 phi x lg) = Inl RuntimeError"
proof -
  let ?chs = "[256, 512, 1024] :: int list"
  from YoloBody_run_unfold [OF w feats, of 0 lg]
  obtain B d lg1 where B:
    "SD_PFAN_init W d w [''dark3'', ''dark4'', ''dark5''] ?chs (phi = ''nano'') ''silu''
       = Inr (yb_backbone B)"
    "yb_head B = YOLOXHead_init W 0 w ?chs ''silu'' (phi = ''nano'')"
    "YoloBody_run W 0 phi x lg = YoloBody_forward B x lg1"
    by blast
  from width_dict_cases [OF w] obtain c :: nat
    where cp: "0 < c" and c: "py_int (256 * w) = int c"
    by (rule table_scaled)
  have n: "nat (py_int (256 * w)) = c"
    by (simp only: c nat_int)
  from SD_PFAN_forward_shapes [OF width_dict_cases [OF w] B(1) feats f1 f2 f3 pos, of lg1]
  obtain H M L lg2 where fw: "SD_PFAN_forward (yb_backbone B) x lg1 = (Inr (H, M, L), lg2)"
    "shape H = (n, c, 4 * a, 4 * b)"
    unfolding n by blast
  have k: "0 < length ?chs" by simp
  have ck: "py_int (of_int (?chs ! 0) * w) = int c"
    using c by simp
  have pos4: "0 < 4 * a" "0 < 4 * b"
    using pos by simp_all
  have "fst (head_branches (yb_head B) 0 H lg2) = Inl RuntimeError"
    unfolding B(2) by (rule head_branches_no_classes [OF k c ck fw(2) pos4 cp])
  then have "fst (head_scale (yb_head B) 0 H lg2) = Inl RuntimeError"
    unfolding head_scale_def by (rule fst_bnd_Inl)
  then have "fst (YOLOXHead_forward (yb_head B) [H, M, L] lg2) = Inl RuntimeError"
    unfolding YOLOXHead_forward_def head_loop.simps by (rule fst_bnd_Inl)
  then have "fst (YoloBody_forward B x lg1) = Inl RuntimeError"
    unfolding YoloBody_forward_def bnd_def by (simp only: fw(1) prod.case sum.case)
  then show ?thesis
    unfolding B(3) .
qed

subsection \<open>What a returning call of the head has computed\<close>

lemma bnd_InrE:
  assumes "bnd m f lg = (Inr v, lg')"
  obtains u lg1 where "m lg = (Inr u, lg1)" and "f u lg1 = (Inr v, lg')"
proof (cases "m lg")
  case (Pair r lg1)
  with assms show ?thesis
    by (cases r) (auto simp: bnd_def intro: that)
qed

lemma call_InrD: "call name r lg = (Inr v, lg') \<Longrightarrow> r = Inr v"
  by (cases r) (simp_all add: call_Inr call_Inl)

lemma module_at_InrD: "module_at ms k lg = (Inr m, lg') \<Longrightarrow> k < length ms \<and> m = ms ! k"
  by (simp add: module_at_def ret_def raise_def split: if_splits)

lemma head_branches_InrD:
  assumes "head_branches hm k x lg = (Inr (r, ob, cl), lg')"
  shows "\<exists>s cf rf.
           k < length (stems hm) \<and> k < length (cls_convs hm) \<and> k < length (cls_preds hm) \<and>
           k < length (reg_convs hm) \<and> k < length (reg_preds hm) \<and> k < length (obj_preds hm) \<and>
           conv2d_forward (stems hm ! k) x = Inr s \<and>
           seq_forward (cls_convs hm ! k) s = Inr cf \<and>
           conv2d_forward (cls_preds hm ! k) cf = Inr cl \<and>
           seq_forward (reg_convs hm ! k) s = Inr rf \<and>
           conv2d_forward (reg_preds hm ! k) rf = Inr r \<and>
           conv2d_forward (obj_preds hm ! k) rf = Inr ob"
  using assms unfolding head_branches_def
  by (elim bnd_InrE) (auto dest!: call_InrD module_at_InrD simp: ret_def)

lemma head_scale_InrD:
  assumes "head_scale hm k x lg = (Inr out, lg')"
  shows "\<exists>r ob cl lg1. head_branches hm k x lg = (Inr (r, ob, cl), lg1) \<and>
           torch_cat1 [r, ob, cl] = Inr out"
  using assms unfolding head_scale_def
  by (elim bnd_InrE) (auto dest!: call_InrD)

lemma conv2d_forward_InrD:
  "conv2d_forward c x = Inr y \<Longrightarrow> length (chans y) = nat (out_channels c) \<and> dimN y = dimN x"
  by (auto simp: conv2d_forward_def length_planes split: if_splits sum.splits)

lemma torch_cat1_triple_InrD:
  assumes "torch_cat1 [a, b, c] = Inr y"
  shows "y = a\<lparr>chans := chans a @ chans b @ chans c\<rparr> \<and>
         dimN b = dimN a \<and> dimH b = dimH a \<and> dimW b = dimW a \<and>
         dimN c = dimN a \<and> dimH c = dimH a \<and> dimW c = dimW a"
  using assms by (auto simp: torch_cat1_def split: if_splits)

lemma head_loop_InrD:
  "head_loop hm k xs acc lg = (Inr outs, lg') \<Longrightarrow>
     length outs = length acc + length xs \<and> take (length acc) outs = acc \<and>
     (\<forall>i<length xs. \<exists>lga lgb.
        head_scale hm (k + i) (xs ! i) lga = (Inr (outs ! (length acc + i)), lgb))"
proof (induction xs arbitrary: k acc lg)
  case Nil
  then show ?case by (simp add: ret_def)
next
  case (Cons x xs)
  from Cons.prems obtain out lg1 where out: "head_scale hm k x lg = (Inr out, lg1)"
    and rest: "head_loop hm (Suc k) xs (acc @ [out]) lg1 = (Inr outs, lg')"
    by (auto elim: bnd_InrE)
  from Cons.IH [OF rest]
  have len: "length outs = length (acc @ [out]) + length xs"
    and pre: "take (length (acc @ [out])) outs = acc @ [out]"
    and tl: "\<forall>i<length xs. \<exists>lga lgb.
        head_scale hm (Suc k + i) (xs ! i) lga = (Inr (outs ! (length (acc @ [out]) + i)), lgb)"
    by blast+
  from pre have pre1: "take (Suc (length acc)) outs = acc @ [out]" by simp
  from len have lt: "length acc < length outs" by simp
  from pre1 lt have at: "outs ! length acc = out"
    by (metis nth_append_length nth_take lessI)
  from pre1 have pre0: "take (length acc) outs = acc"
    by (metis append_eq_conv_conj length_take min.absorb2 lt less_imp_le_nat take_take
        le_add2 plus_1_eq_Suc)
  have "\<exists>lga lgb. head_scale hm (k + i) ((x # xs) ! i) lga
          = (Inr (outs ! (length acc + i)), lgb)" if "i < length (x # xs)" for i
  proof (cases i)
    case 0
    with out at show ?thesis by auto
  next
    case (Suc j)
    with that have "j < length xs" by simp
    with tl Suc show ?thesis by auto
  qed
  with len pre0 show ?case by simp
qed

lemma head_scale_determined:
  assumes "head_scale hm k x lg = (Inr a, l1)" and "head_scale hm' k x lg' = (Inr b, l2)"
    and "scale_params hm k = scale_params hm' k"
  shows "a = b"
proof -
  from head_scale_InrD [OF assms(1)] obtain r ob cl lg1
    where 1: "head_branches hm k x lg = (Inr (r, ob, cl), lg1)" "torch_cat1 [r, ob, cl] = Inr a"
    by blast
  from head_scale_InrD [OF assms(2)] obtain r' ob' cl' lg1'
    where 2: "head_branches hm' k x lg' = (Inr (r', ob', cl'), lg1')"
      "torch_cat1 [r', ob', cl'] = Inr b"
    by blast
  from assms(3) have eq: "stems hm ! k = stems hm' ! k" "cls_convs hm ! k = cls_convs hm' ! k"
    "cls_preds hm ! k = cls_preds hm' ! k" "reg_convs hm ! k = reg_convs hm' ! k"
    "reg_preds hm ! k = reg_preds hm' ! k" "obj_preds hm ! k = obj_preds hm' ! k"
    by (simp_all add: scale_params_def)
  from head_branches_InrD [OF 1(1)] head_branches_InrD [OF 2(1)]
  have "r = r'" "ob = ob'" "cl = cl'"
    unfolding eq by auto
  with 1(2) 2(2) show ?thesis by simp
qed

lemma YOLOXHead_forward_ok:
  assumes c: "py_int (256 * w) = int c"
    and len: "length in_chs = 3"
    and ck: "py_int (of_int (in_chs ! 0) * w) = int c0"
      "py_int (of_int (in_chs ! Suc 0) * w) = int c1"
      "py_int (of_int (in_chs ! Suc (Suc 0)) * w) = int c2"
    and x: "shape x0 = (n0, c0, h0, w0)" "shape x1 = (n1, c1, h1, w1)"
      "shape x2 = (n2, c2, h2, w2)"
    and pos: "0 < h0" "0 < w0" "0 < h1" "0 < w1" "0 < h2" "0 < w2"
    and cpos: "0 < c" and ncpos: "0 < nc"
  shows "\<exists>o0 o1 o2 lg'.
           YOLOXHead_forward (YOLOXHead_init W nc w in_chs act dw) [x0, x1, x2] lg
             = (Inr [o0, o1, o2], lg')"
proof -
  let ?hm = "YOLOXHead_init W nc w in_chs act dw"
  have k: "0 < length in_chs" "Suc 0 < length in_chs" "Suc (Suc 0) < length in_chs"
    using len by simp_all
  from head_scale_shapes [OF k(1) c ck(1) x(1) pos(1,2) cpos ncpos, where W = W
      and act = act and dw = dw and lg = lg]
  obtain o0 lg0 where o0: "head_scale ?hm 0 x0 lg = (Inr o0, lg0)" by blast
  from head_scale_shapes [OF k(2) c ck(2) x(2) pos(3,4) cpos ncpos, where W = W
      and act = act and dw = dw and lg = lg0]
  obtain o1 lg1 where o1: "head_scale ?hm (Suc 0) x1 lg0 = (Inr o1, lg1)" by blast
  from head_scale_shapes [OF k(3) c ck(3) x(3) pos(5,6) cpos ncpos, where W = W
      and act = act and dw = dw and lg = lg1]
  obtain o2 lg2 where o2: "head_scale ?hm (Suc (Suc 0)) x2 lg1 = (Inr o2, lg2)" by blast
  from YOLOXHead_forward_three [OF o0 o1 o2] show ?thesis by blast
qed

lemma unit_head_forward_ok:
  assumes "0 < h0" "0 < w0" "0 < h1" "0 < w1" "0 < h2" "0 < w2" "0 < nc"
  shows "\<exists>o0 o1 o2 lg'.
           YOLOXHead_forward
             (YOLOXHead_init (unit_params Map.empty) nc 1 [256, 512, 1024] ''silu'' False)
             [unit_tensor n0 256 h0 w0, unit_tensor n1 512 h1 w1, unit_tensor n2 1024 h2 w2] []
             = (Inr [o0, o1, o2], lg')"
proof -
  have c: "py_int (256 * 1) = int 256" by (simp add: py_int_def)
  have ck: "py_int (of_int ([256, 512, 1024] ! 0) * 1) = int 256"
    "py_int (of_int ([256, 512, 1024] ! Suc 0) * 1) = int 512"
    "py_int (of_int ([256, 512, 1024] ! Suc (Suc 0)) * 1) = int 1024"
    by (simp_all add: py_int_def)
  have len: "length [256, 512, 1024 :: int] = 3" by simp
  have x: "shape (unit_tensor n0 256 h0 w0) = (n0, 256, h0, w0)"
    "shape (unit_tensor n1 512 h1 w1) = (n1, 512, h1, w1)"
    "shape (unit_tensor n2 1024 h2 w2) = (n2, 1024, h2, w2)"
    by (simp_all add: shape_def unit_tensor_def)
  have cp: "(0::nat) < 256" by simp
  show ?thesis
    by (rule YOLOXHead_forward_ok [OF c len ck x assms(1-6) cp assms(7)])
qed

subsection \<open>The declared channel counts are truncated products\<close>

lemma SD_PFAN_channels_trunc:
  assumes "SD_PFAN_init W d w feats in_chs dw act = Inr P"
  shows "SD_PFAN_channels P = map (\<lambda>b. py_int (of_int b * w)) (SD_PFAN_bases in_chs)"
  using assms
  by (auto simp: SD_PFAN_init_def SD_PFAN_channels_def SD_PFAN_bases_def ConvTranspose2d_def
        SAConv2d_def Conv2d_def BaseConv_def LRAM_def split: if_splits)

lemma YOLOXHead_channels_trunc:
  assumes "i < length in_chs"
  shows "YOLOXHead_channels (YOLOXHead_init W nc w in_chs act dw) i
           = map (\<lambda>b. py_int (of_int b * w)) (YOLOXHead_bases in_chs i)"
  using assms
  by (simp add: YOLOXHead_init_def YOLOXHead_channels_def YOLOXHead_bases_def Let_def
        Conv2d_def BaseConv_def DWConv_def)

lemma py_int_of_int: "py_int (of_int n) = n"
  by (simp add: py_int_def)

lemma table_exact:
  assumes "w \<in> {1/4, 3/8, 1/2, 3/4, 1, 5/4 :: rat}" and "b \<in> {256, 512, 1024, 2048 :: int}"
  shows "of_int (py_int (of_int b * w)) = of_int b * w \<and>
         round (of_int b * w) = py_int (of_int b * w)"
proof -
  from assms(1) obtain c :: nat where c: "of_int (int c) = 256 * w"
    by (rule table_scaled)
  from assms(2) consider "b = 256" | "b = 512" | "b = 1024" | "b = 2048" by blast
  then obtain m :: int where eq: "of_int b * w = (of_int (m * int c) :: rat)"
  proof cases
    case 1 then show ?thesis using that [of 1] c by simp
  next
    case 2 then show ?thesis using that [of 2] c by simp
  next
    case 3 then show ?thesis using that [of 4] c by simp
  next
    case 4 then show ?thesis using that [of 8] c by simp
  qed
  show ?thesis
    unfolding eq by (simp only: py_int_of_int round_of_int simp_thms)
qed

section \<open>The claims\<close>

subsection \<open>C1: the channels of the Mid-to-High upsample\<close>

text \<open>
  Claim C1, as the code has it. For every width multiplier \<open>w\<close> of the profile table, the
  transposed convolution \<^verbatim>\<open>upsample_M_to_H\<close> is built with \<open>int(2 * Mid * w)\<close> input
  channels and \<open>int((Mid // 2) * w)\<close> output channels, where \<open>Mid = 512\<close>; both products
  are whole numbers, so the input count is \<open>1024 * w\<close> and the output count is \<open>256 * w\<close>,
  the scaled High count (256 at base width), not half of it.
\<close>

theorem C1_upsample_M_to_H_channels:
  assumes "map_of width_dict phi = Some w"
  shows "\<exists>P. SD_PFAN_init W d w feats [256, 512, 1024] dw act = Inr P \<and>
           t_in_channels (upsample_M_to_H P) = py_int (of_int (2 * 512) * w) \<and>
           of_int (t_in_channels (upsample_M_to_H P)) = of_int (2 * 512) * w \<and>
           t_out_channels (upsample_M_to_H P) = py_int (of_int (512 div 2) * w) \<and>
           of_int (t_out_channels (upsample_M_to_H P)) = 256 * w"
proof -
  from width_dict_cases [OF assms] obtain c :: nat
    where c: "py_int (256 * w) = int c" "py_int (1024 * w) = int (4 * c)"
      "of_int (int c) = 256 * w"
    by (rule table_scaled)
  from c(3) have "of_int (int (4 * c)) = 1024 * w" by simp
  with c show ?thesis by (simp add: SD_PFAN_init_def ConvTranspose2d_def)
qed

theorem C1_upsample_M_to_H_channels_witness:
  "\<exists>P. SD_PFAN_init (unit_params Map.empty) 1 1 [''dark3'', ''dark4'', ''dark5'']
            [256, 512, 1024] False ''silu'' = Inr P \<and>
       t_in_channels (upsample_M_to_H P) = 1024 \<and> t_out_channels (upsample_M_to_H P) = 256"
  using C1_upsample_M_to_H_channels [of "''l''" 1
      "unit_params Map.empty"
      1 "[''dark3'', ''dark4'', ''dark5'']" False "''silu''"]
  by (simp add: width_dict_def py_int_def)

text \<open>At base width the operator is built with 256 output channels, while High / 2 scaled
  by the width is 128.\<close>

theorem C1_upsample_out_counterexample:
  "map_sum id (t_out_channels \<circ> upsample_M_to_H)
     (SD_PFAN_init (unit_params Map.empty) 1 1 [''dark3'', ''dark4'', ''dark5'']
        [256, 512, 1024] False ''silu'') = Inr 256 \<and>
   py_int (of_int (256 div 2) * 1) = 128"
  by (simp add: SD_PFAN_init_def ConvTranspose2d_def py_int_def)

subsection \<open>C2: the shapes of the predictions\<close>

text \<open>
  Claim C2, as the code has it. For every profile of the table, every batch size \<open>n\<close> and
  every number of classes that is at least one, if the backbone returns features of the
  scaled base channel counts whose spatial sizes are \<open>(h, w0)\<close>, \<open>(h/2, w0/2)\<close> and
  \<open>(h/4, w0/4)\<close> with \<open>h\<close> and \<open>w0\<close> multiples of four that are at least eight (\<open>h = 4a\<close>,
  \<open>w0 = 4b\<close> with \<open>a, b \<ge> 2\<close>), then constructing the model and calling \<^verbatim>\<open>forward\<close>
  returns exactly three tensors in the order High, Mid, Low, each with
  \<open>4 + 1 + num_classes\<close> channels and with the spatial size of its level.
\<close>

theorem C2_forward_shapes:
  assumes "map_of width_dict phi = Some w"
    and "backbone_out W x ''dark3'' = Some f1" and "backbone_out W x ''dark4'' = Some f2"
    and "backbone_out W x ''dark5'' = Some f3"
    and "shape f1 = (n, nat (py_int (256 * w)), 4 * a, 4 * b)"
    and "shape f2 = (n, nat (py_int (512 * w)), 2 * a, 2 * b)"
    and "shape f3 = (n, nat (py_int (1024 * w)), a, b)"
    and "1 < a" and "1 < b" and "0 < num_classes"
  shows "\<exists>o1 o2 o3 lg'.
           YoloBody_run W num_classes phi x lg = (Inr [o1, o2, o3], lg') \<and>
           shape o1 = (n, 4 + 1 + num_classes, 4 * a, 4 * b) \<and>
           shape o2 = (n, 4 + 1 + num_classes, 2 * a, 2 * b) \<and>
           shape o3 = (n, 4 + 1 + num_classes, a, b)"
  using assms by (rule YoloBody_run_shapes)

theorem C2_forward_shapes_witness:
  "\<exists>o1 o2 o3 lg'.
     YoloBody_run
       (unit_params [''dark3'' \<mapsto> unit_tensor 1 256 80 80, ''dark4'' \<mapsto> unit_tensor 1 512 40 40,
                     ''dark5'' \<mapsto> unit_tensor 1 1024 20 20])
       80 ''l'' (unit_tensor 1 3 640 640) [] = (Inr [o1, o2, o3], lg') \<and>
     shape o1 = (1, 85, 80, 80) \<and> shape o2 = (1, 85, 40, 40) \<and> shape o3 = (1, 85, 20, 20)"
proof -
  let ?W = "unit_params [''dark3'' \<mapsto> unit_tensor 1 256 80 80,
                         ''dark4'' \<mapsto> unit_tensor 1 512 40 40,
                         ''dark5'' \<mapsto> unit_tensor 1 1024 20 20]"
  have w: "map_of width_dict ''l'' = Some 1"
    by (simp add: width_dict_def)
  have b: "backbone_out ?W (unit_tensor 1 3 640 640) ''dark3'' = Some (unit_tensor 1 256 80 80)"
    "backbone_out ?W (unit_tensor 1 3 640 640) ''dark4'' = Some (unit_tensor 1 512 40 40)"
    "backbone_out ?W (unit_tensor 1 3 640 640) ''dark5'' = Some (unit_tensor 1 1024 20 20)"
    by (simp_all add: unit_params_def)
  have s: "shape (unit_tensor 1 256 80 80) = (1, nat (py_int (256 * 1)), 4 * 20, 4 * 20)"
    "shape (unit_tensor 1 512 40 40) = (1, nat (py_int (512 * 1)), 2 * 20, 2 * 20)"
    "shape (unit_tensor 1 1024 20 20) = (1, nat (py_int (1024 * 1)), 20, 20)"
    by (simp_all add: shape_def unit_tensor_def py_int_def)
  have pos: "(1::nat) < 20" and nc: "(0::nat) < 80" by simp_all
  from C2_forward_shapes [OF w b s pos pos nc, where lg = "[]"]
  show ?thesis by simp
qed

text \<open>
  The claim fails on three inputs. Even sizes are not enough: with a stride-8 size of
  \<open>(6, 6)\<close> the Mid feature is \<open>3 \<times> 3\<close>, while the transposed convolution doubles the Low
  feature to an even size (here \<open>2 \<times> 2\<close> to \<open>4 \<times> 4\<close>), so the first concatenation meets
  two different spatial sizes and raises. At the stride-8 size \<open>(4, 4)\<close> the Mid tensor is
  \<open>2 \<times> 2\<close>, which the downsampling operator cannot pad. And with no class the
  classification layer has no output channel and cannot run.
\<close>

theorem C2_forward_counterexample:
  "fst (YoloBody_run
          (unit_params [''dark3'' \<mapsto> unit_tensor 1 256 6 6, ''dark4'' \<mapsto> unit_tensor 1 512 3 3,
                        ''dark5'' \<mapsto> unit_tensor 1 1024 2 2])
          80 ''l'' (unit_tensor 1 3 48 48) []) = Inl RuntimeError \<and>
   fst (YoloBody_run
          (unit_params [''dark3'' \<mapsto> unit_tensor 1 256 4 4, ''dark4'' \<mapsto> unit_tensor 1 512 2 2,
                        ''dark5'' \<mapsto> unit_tensor 1 1024 1 1])
          80 ''l'' (unit_tensor 1 3 32 32) []) = Inl RuntimeError \<and>
   fst (YoloBody_run
          (unit_params [''dark3'' \<mapsto> unit_tensor 1 256 80 80, ''dark4'' \<mapsto> unit_tensor 1 512 40 40,
                        ''dark5'' \<mapsto> unit_tensor 1 1024 20 20])
          0 ''l'' (unit_tensor 1 3 640 640) []) = Inl RuntimeError"
proof -
  have w: "map_of width_dict ''l'' = Some 1"
    by (simp add: width_dict_def)
  let ?W = "unit_params [''dark3'' \<mapsto> unit_tensor 1 256 6 6,
                         ''dark4'' \<mapsto> unit_tensor 1 512 3 3,
                         ''dark5'' \<mapsto> unit_tensor 1 1024 2 2]"
  have b: "backbone_out ?W (unit_tensor 1 3 48 48) ''dark3'' = Some (unit_tensor 1 256 6 6)"
    "backbone_out ?W (unit_tensor 1 3 48 48) ''dark4'' = Some (unit_tensor 1 512 3 3)"
    "backbone_out ?W (unit_tensor 1 3 48 48) ''dark5'' = Some (unit_tensor 1 1024 2 2)"
    by (simp_all add: unit_params_def)
  have s: "shape (unit_tensor 1 512 3 3) = (1, 512, 3, 3)"
    "shape (unit_tensor 1 1024 2 2) = (1, nat (py_int (1024 * 1)), 2, 2)"
    by (simp_all add: shape_def unit_tensor_def py_int_def)
  have ne: "(3::nat) \<noteq> 2 * 2" by simp
  have 1: "fst (YoloBody_run ?W 80 ''l'' (unit_tensor 1 3 48 48) []) = Inl RuntimeError"
    by (rule YoloBody_run_size_mismatch [OF w b s ne])
  let ?V = "unit_params [''dark3'' \<mapsto> unit_tensor 1 256 4 4,
                         ''dark4'' \<mapsto> unit_tensor 1 512 2 2,
                         ''dark5'' \<mapsto> unit_tensor 1 1024 1 1]"
  have b': "backbone_out ?V (unit_tensor 1 3 32 32) ''dark3'' = Some (unit_tensor 1 256 4 4)"
    "backbone_out ?V (unit_tensor 1 3 32 32) ''dark4'' = Some (unit_tensor 1 512 2 2)"
    "backbone_out ?V (unit_tensor 1 3 32 32) ''dark5'' = Some (unit_tensor 1 1024 1 1)"
    by (simp_all add: unit_params_def)
  have s': "shape (unit_tensor 1 256 4 4) = (1, nat (py_int (256 * 1)), 4 * 1, 4 * 1)"
    "shape (unit_tensor 1 512 2 2) = (1, nat (py_int (512 * 1)), 2 * 1, 2 * 1)"
    "shape (unit_tensor 1 1024 1 1) = (1, nat (py_int (1024 * 1)), 1, 1)"
    by (simp_all add: shape_def unit_tensor_def py_int_def)
  have small: "(1::nat) \<le> 1" by simp
  have 2: "fst (YoloBody_run ?V 80 ''l'' (unit_tensor 1 3 32 32) []) = Inl RuntimeError"
    by (rule YoloBody_run_small_input [OF w b' s' small])
  let ?U = "unit_params [''dark3'' \<mapsto> unit_tensor 1 256 80 80,
                         ''dark4'' \<mapsto> unit_tensor 1 512 40 40,
                         ''dark5'' \<mapsto> unit_tensor 1 1024 20 20]"
  have b'': "backbone_out ?U (unit_tensor 1 3 640 640) ''dark3'' = Some (unit_tensor 1 256 80 80)"
    "backbone_out ?U (unit_tensor 1 3 640 640) ''dark4'' = Some (unit_tensor 1 512 40 40)"
    "backbone_out ?U (unit_tensor 1 3 640 640) ''dark5'' = Some (unit_tensor 1 1024 20 20)"
    by (simp_all add: unit_params_def)
  have s'': "shape (unit_tensor 1 256 80 80) = (1, nat (py_int (256 * 1)), 4 * 20, 4 * 20)"
    "shape (unit_tensor 1 512 40 40) = (1, nat (py_int (512 * 1)), 2 * 20, 2 * 20)"
    "shape (unit_tensor 1 1024 20 20) = (1, nat (py_int (1024 * 1)), 20, 20)"
    by (simp_all add: shape_def unit_tensor_def py_int_def)
  have pos: "(1::nat) < 20" by simp
  have 3: "fst (YoloBody_run ?U 0 ''l'' (unit_tensor 1 3 640 640) []) = Inl RuntimeError"
    by (rule YoloBody_run_no_classes [OF w b'' s'' pos pos])
  from 1 2 3 show ?thesis by (intro conjI)
qed

subsection \<open>C3: the shapes of the fused features\<close>

text \<open>
  Claim C3, as the code has it. Let the fusion network be built for a width \<open>w\<close> of the
  profile table, and let the backbone return, under the three default names, features with
  the scaled base channel counts \<open>int(256 * w)\<close>, \<open>int(512 * w)\<close>, \<open>int(1024 * w)\<close> whose
  spatial sizes are those of strides 8, 16 and 32, that is \<open>(4a, 4b)\<close>, \<open>(2a, 2b)\<close> and
  \<open>(a, b)\<close>, with \<open>a\<close> and \<open>b\<close> at least two. Then \<^verbatim>\<open>SD_PFAN.forward\<close> returns three
  tensors, in the order High, Mid, Low, each of the shape of the corresponding input. The
  witness is the scenario of the spec at width 1.0: inputs (1,256,80,80), (1,512,40,40),
  (1,1024,20,20) give outputs of the same shapes.
\<close>

theorem C3_fuse_shapes:
  assumes "map_of width_dict phi = Some w"
    and "SD_PFAN_init W d w [''dark3'', ''dark4'', ''dark5''] [256, 512, 1024] dw act = Inr P"
    and "backbone_out W x ''dark3'' = Some f1" and "backbone_out W x ''dark4'' = Some f2"
    and "backbone_out W x ''dark5'' = Some f3"
    and "shape f1 = (n, nat (py_int (256 * w)), 4 * a, 4 * b)"
    and "shape f2 = (n, nat (py_int (512 * w)), 2 * a, 2 * b)"
    and "shape f3 = (n, nat (py_int (1024 * w)), a, b)"
    and "1 < a" and "1 < b"
  shows "\<exists>H M L lg'. SD_PFAN_forward P x lg = (Inr (H, M, L), lg') \<and>
           shape H = (n, nat (py_int (256 * w)), 4 * a, 4 * b) \<and>
           shape M = (n, nat (py_int (512 * w)), 2 * a, 2 * b) \<and>
           shape L = (n, nat (py_int (1024 * w)), a, b) \<and>
           shape H = shape f1 \<and> shape M = shape f2 \<and> shape L = shape f3"
proof -
  from SD_PFAN_forward_shapes [OF width_dict_cases [OF assms(1)] assms(2-10), of lg]
  show ?thesis using assms(6-8) by auto
qed

theorem C3_fuse_shapes_witness:
  "\<exists>P H M L lg'.
     SD_PFAN_init
       (unit_params [''dark3'' \<mapsto> unit_tensor 1 256 80 80, ''dark4'' \<mapsto> unit_tensor 1 512 40 40,
                     ''dark5'' \<mapsto> unit_tensor 1 1024 20 20])
       1 1 [''dark3'', ''dark4'', ''dark5''] [256, 512, 1024] False ''silu'' = Inr P \<and>
     SD_PFAN_forward P (unit_tensor 1 3 640 640) [] = (Inr (H, M, L), lg') \<and>
     shape H = (1, 256, 80, 80) \<and> shape M = (1, 512, 40, 40) \<and> shape L = (1, 1024, 20, 20)"
proof -
  let ?W = "unit_params [''dark3'' \<mapsto> unit_tensor 1 256 80 80,
                         ''dark4'' \<mapsto> unit_tensor 1 512 40 40,
                         ''dark5'' \<mapsto> unit_tensor 1 1024 20 20]"
  obtain P where P: "SD_PFAN_init ?W 1 1 [''dark3'', ''dark4'', ''dark5''] [256, 512, 1024]
                       False ''silu'' = Inr P"
    by (simp add: SD_PFAN_init_def)
  have w: "map_of width_dict ''l'' = Some 1"
    by (simp add: width_dict_def)
  have b: "backbone_out ?W (unit_tensor 1 3 640 640) ''dark3'' = Some (unit_tensor 1 256 80 80)"
    "backbone_out ?W (unit_tensor 1 3 640 640) ''dark4'' = Some (unit_tensor 1 512 40 40)"
    "backbone_out ?W (unit_tensor 1 3 640 640) ''dark5'' = Some (unit_tensor 1 1024 20 20)"
    by (simp_all add: unit_params_def)
  have s: "shape (unit_tensor 1 256 80 80) = (1, nat (py_int (256 * 1)), 4 * 20, 4 * 20)"
    "shape (unit_tensor 1 512 40 40) = (1, nat (py_int (512 * 1)), 2 * 20, 2 * 20)"
    "shape (unit_tensor 1 1024 20 20) = (1, nat (py_int (1024 * 1)), 20, 20)"
    by (simp_all add: shape_def unit_tensor_def py_int_def)
  have pos: "(1::nat) < 20" by simp
  from C3_fuse_shapes [OF w P b s pos pos, of "[]"]
  obtain H M L lg' where
    "SD_PFAN_forward P (unit_tensor 1 3 640 640) [] = (Inr (H, M, L), lg')"
    "shape H = shape (unit_tensor 1 256 80 80)" "shape M = shape (unit_tensor 1 512 40 40)"
    "shape L = shape (unit_tensor 1 1024 20 20)"
    by blast
  then have "SD_PFAN_forward P (unit_tensor 1 3 640 640) [] = (Inr (H, M, L), lg') \<and>
     shape H = (1, 256, 80, 80) \<and> shape M = (1, 512, 40, 40) \<and> shape L = (1, 1024, 20, 20)"
    by (simp add: shape_def unit_tensor_def)
  with P show ?thesis by blast
qed

text \<open>
  The smallest features are refused. On features of the sizes \<open>4 \<times> 4\<close>, \<open>2 \<times> 2\<close> and
  \<open>1 \<times> 1\<close> (strides 8, 16 and 32 of a \<open>32 \<times> 32\<close> image), with the channel counts of
  width 1.0, the downsampling of the \<open>2 \<times> 2\<close> Mid tensor raises: its operator pads by 2
  in reflect mode, which needs sides larger than 2.
\<close>

theorem C3_small_feature_counterexample:
  "fst (SD_PFAN_run
          (unit_params [''dark3'' \<mapsto> unit_tensor 1 256 4 4, ''dark4'' \<mapsto> unit_tensor 1 512 2 2,
                        ''dark5'' \<mapsto> unit_tensor 1 1024 1 1])
          1 1 (unit_tensor 1 3 32 32) []) = Inl RuntimeError"
proof -
  let ?V = "unit_params [''dark3'' \<mapsto> unit_tensor 1 256 4 4,
                         ''dark4'' \<mapsto> unit_tensor 1 512 2 2,
                         ''dark5'' \<mapsto> unit_tensor 1 1024 1 1]"
  have w: "(1::rat) \<in> {1/4, 3/8, 1/2, 3/4, 1, 5/4}" by simp
  have b: "backbone_out ?V (unit_tensor 1 3 32 32) ''dark3'' = Some (unit_tensor 1 256 4 4)"
    "backbone_out ?V (unit_tensor 1 3 32 32) ''dark4'' = Some (unit_tensor 1 512 2 2)"
    "backbone_out ?V (unit_tensor 1 3 32 32) ''dark5'' = Some (unit_tensor 1 1024 1 1)"
    by (simp_all add: unit_params_def)
  have s: "shape (unit_tensor 1 256 4 4) = (1, nat (py_int (256 * 1)), 4 * 1, 4 * 1)"
    "shape (unit_tensor 1 512 2 2) = (1, nat (py_int (512 * 1)), 2 * 1, 2 * 1)"
    "shape (unit_tensor 1 1024 1 1) = (1, nat (py_int (1024 * 1)), 1, 1)"
    by (simp_all add: shape_def unit_tensor_def py_int_def)
  have small: "(1::nat) \<le> 1" by simp
  show ?thesis
    by (rule SD_PFAN_run_small_input [OF w b s small])
qed

subsection \<open>C4: how channel counts are scaled\<close>

text \<open>
  Claim C4, as the code has it. Every scaled channel count the two constructors declare
  is \<open>int(base * w)\<close>, the product truncated toward zero, with the same rule for every
  operator. For every width \<open>w\<close> of the profile table each product \<open>base * w\<close> is a whole
  number, so the truncation is exact and is also the nearest integer, and the operand
  counts of every concatenation add up to the input count declared by its consumer.
\<close>

theorem C4_channel_scaling:
  assumes "map_of width_dict phi = Some w"
    and "SD_PFAN_init W d w feats [256, 512, 1024] dw act = Inr P"
    and "i < 3"
  shows "SD_PFAN_channels P
           = map (\<lambda>b. py_int (of_int b * w)) (SD_PFAN_bases [256, 512, 1024]) \<and>
         YOLOXHead_channels (YOLOXHead_init W nc w [256, 512, 1024] act dw) i
           = map (\<lambda>b. py_int (of_int b * w)) (YOLOXHead_bases [256, 512, 1024] i) \<and>
         (\<forall>b \<in> set (SD_PFAN_bases [256, 512, 1024] @ YOLOXHead_bases [256, 512, 1024] i).
            of_int (py_int (of_int b * w)) = of_int b * w \<and>
            round (of_int b * w) = py_int (of_int b * w)) \<and>
         l_out (feat2_attention P) + t_out_channels (upsample_L_to_M P)
           = t_in_channels (upsample_M_to_H P) \<and>
         l_out (feat1_attention P) + t_out_channels (upsample_M_to_H P)
           = in_channels (resize_H P) \<and>
         out_channels (downsample_H_to_M P)
           + (l_out (feat2_attention P) + t_out_channels (upsample_L_to_M P))
           = in_channels (resize_M P) \<and>
         l_out (feat3_attention P) + out_channels (downsample_M_to_L P)
           = in_channels (resize_L P)"
proof -
  let ?chs = "[256, 512, 1024] :: int list"
  have 1: "SD_PFAN_channels P = map (\<lambda>b. py_int (of_int b * w)) (SD_PFAN_bases ?chs)"
    by (rule SD_PFAN_channels_trunc [OF assms(2)])
  have 2: "YOLOXHead_channels (YOLOXHead_init W nc w ?chs act dw) i
           = map (\<lambda>b. py_int (of_int b * w)) (YOLOXHead_bases ?chs i)"
    by (rule YOLOXHead_channels_trunc) (use assms(3) in simp)
  from assms(3) consider "i = 0" | "i = 1" | "i = 2" by linarith
  then have sub: "set (SD_PFAN_bases ?chs @ YOLOXHead_bases ?chs i) \<subseteq> {256, 512, 1024, 2048}"
    by cases (simp_all add: SD_PFAN_bases_def YOLOXHead_bases_def)
  have 3: "\<forall>b \<in> set (SD_PFAN_bases ?chs @ YOLOXHead_bases ?chs i).
            of_int (py_int (of_int b * w)) = of_int b * w \<and>
            round (of_int b * w) = py_int (of_int b * w)"
    using table_exact [OF width_dict_cases [OF assms(1)]] sub by blast
  from width_dict_cases [OF assms(1)] obtain c :: nat
    where c: "py_int (256 * w) = int c" "py_int (512 * w) = int (2 * c)"
      "py_int (1024 * w) = int (4 * c)" "py_int (2048 * w) = int (8 * c)"
    by (rule table_scaled)
  from SD_PFAN_init_fields [OF c, of W d feats dw act] assms(2)
  have F: "upsample_L_to_M P = ConvTranspose2d (int (4 * c)) (int (2 * c)) 3 2 1 1
       (layer W ''upsample_L_to_M'' 0)"
    "upsample_M_to_H P = ConvTranspose2d (int (2 * (2 * c))) (int c) 3 2 1 1
       (layer W ''upsample_M_to_H'' 0)"
    "downsample_M_to_L P = SAConv2d (int (2 * (2 * c))) (int (4 * c)) 3 2 1
       (layer W ''downsample_M_to_L'' 0)"
    "downsample_H_to_M P = SAConv2d (int (2 * c)) (int (2 * (2 * c))) 3 2 1
       (layer W ''downsample_H_to_M'' 0)"
    "resize_H P = BaseConv (int (2 * c)) (int c) 1 1 act (layer W ''resize_H'' 0)"
    "resize_M P = BaseConv (int (4 * (2 * c))) (int (2 * c)) 1 1 act (layer W ''resize_M'' 0)"
    "resize_L P = BaseConv (int (2 * (4 * c))) (int (4 * c)) 1 1 act (layer W ''resize_L'' 0)"
    by auto
  from SD_PFAN_init_gates [OF c(1-3), of W d feats dw act] assms(2)
  have G: "feat1_attention P = LRAM (int c) (int c) (layer W ''feat1_attention'' 0)"
    "feat2_attention P = LRAM (int (2 * c)) (int (2 * c)) (layer W ''feat2_attention'' 0)"
    "feat3_attention P = LRAM (int (4 * c)) (int (4 * c)) (layer W ''feat3_attention'' 0)"
    by auto
  have 4: "l_out (feat2_attention P) + t_out_channels (upsample_L_to_M P)
           = t_in_channels (upsample_M_to_H P)"
    "l_out (feat1_attention P) + t_out_channels (upsample_M_to_H P)
           = in_channels (resize_H P)"
    "out_channels (downsample_H_to_M P)
           + (l_out (feat2_attention P) + t_out_channels (upsample_L_to_M P))
           = in_channels (resize_M P)"
    "l_out (feat3_attention P) + out_channels (downsample_M_to_L P)
           = in_channels (resize_L P)"
    by (simp_all add: F G ConvTranspose2d_def SAConv2d_def Conv2d_def BaseConv_def LRAM_def)
  from 1 2 3 4 show ?thesis by blast
qed

theorem C4_channel_scaling_witness:
  "\<exists>P. SD_PFAN_init (unit_params Map.empty) (33/100) (3/8) [''dark3'', ''dark4'', ''dark5'']
          [256, 512, 1024] False ''silu'' = Inr P \<and>
       SD_PFAN_channels P =
         [384, 192, 384, 96, 384, 384, 192, 384, 192, 96, 768, 192, 768, 384, 96, 96, 192, 192,
          384, 384] \<and>
       YOLOXHead_channels
         (YOLOXHead_init (unit_params Map.empty) 80 (3/8) [256, 512, 1024] ''silu'' False) 1 =
         [192, 96, 96, 96, 96, 96, 96, 96, 96, 96, 96, 96, 96]"
proof -
  let ?W = "unit_params Map.empty"
  obtain P where P: "SD_PFAN_init ?W (33/100) (3/8) [''dark3'', ''dark4'', ''dark5'']
                       [256, 512, 1024] False ''silu'' = Inr P"
    by (simp add: SD_PFAN_init_def)
  have w: "map_of width_dict ''tiny'' = Some (3/8)"
    by (simp add: width_dict_def)
  have i: "(1::nat) < 3" by simp
  from C4_channel_scaling [OF w P i, of 80]
  have "SD_PFAN_channels P =
         [384, 192, 384, 96, 384, 384, 192, 384, 192, 96, 768, 192, 768, 384, 96, 96, 192, 192,
          384, 384]"
    and "YOLOXHead_channels (YOLOXHead_init ?W 80 (3/8) [256, 512, 1024] ''silu'' False) 1 =
         [192, 96, 96, 96, 96, 96, 96, 96, 96, 96, 96, 96, 96]"
    by (simp_all add: SD_PFAN_bases_def YOLOXHead_bases_def py_int_def)
  with P show ?thesis by blast
qed

text \<open>
  Outside the table the rule is not rounding to the nearest integer and the concatenations
  need not align. At the width \<open>259/1024\<close> (exact in binary floating point, as are its
  products with the base counts) the gate of the High feature is declared with
  \<open>int(64.75) = 64\<close> channels where the nearest integer is 65, and the Mid concatenation
  has \<open>129 + 129 = 258\<close> channels where its consumer is declared with 259.
\<close>

theorem C4_truncation_counterexample:
  "map_sum id (l_in \<circ> feat1_attention)
     (SD_PFAN_init (unit_params Map.empty) 1 (259/1024) [''dark3'', ''dark4'', ''dark5'']
        [256, 512, 1024] False ''silu'') = Inr 64 \<and>
   round (256 * (259/1024) :: rat) = 65 \<and>
   map_sum id (l_out \<circ> feat2_attention)
     (SD_PFAN_init (unit_params Map.empty) 1 (259/1024) [''dark3'', ''dark4'', ''dark5'']
        [256, 512, 1024] False ''silu'') = Inr 129 \<and>
   map_sum id (t_out_channels \<circ> upsample_L_to_M)
     (SD_PFAN_init (unit_params Map.empty) 1 (259/1024) [''dark3'', ''dark4'', ''dark5'']
        [256, 512, 1024] False ''silu'') = Inr 129 \<and>
   map_sum id (t_in_channels \<circ> upsample_M_to_H)
     (SD_PFAN_init (unit_params Map.empty) 1 (259/1024) [''dark3'', ''dark4'', ''dark5'']
        [256, 512, 1024] False ''silu'') = Inr 259"
proof -
  have f: "py_int (259/4) = 64" "py_int (259/2) = 129" "py_int 259 = 259"
    by code_simp+
  have r: "round (259/4 :: rat) = 65"
    by code_simp
  show ?thesis
    by (simp add: SD_PFAN_init_def ConvTranspose2d_def LRAM_def f r)
qed

subsection \<open>C5: the channel layout of a prediction\<close>

text \<open>
  Claim C5. Every tensor the head returns is the channel concatenation of the outputs of
  the regression, objectness and classification branches at its scale, in that order:
  the channel slices \<open>[0:4]\<close>, \<open>[4:5]\<close> and \<open>[5:5 + num_classes]\<close> of output \<open>k\<close> are exactly
  the three tensors the branches produced from input \<open>k\<close>, and there are
  \<open>4 + 1 + num_classes\<close> channels in all.
\<close>

theorem C5_channel_roundtrip:
  assumes "YOLOXHead_forward (YOLOXHead_init W nc w in_chs act dw) inputs lg = (Inr outputs, lg')"
    and "k < length outputs"
  shows "\<exists>reg_output obj_output cls_output lga lgb.
           head_branches (YOLOXHead_init W nc w in_chs act dw) k (inputs ! k) lga
             = (Inr (reg_output, obj_output, cls_output), lgb) \<and>
           chans (outputs ! k) = chans reg_output @ chans obj_output @ chans cls_output \<and>
           length (chans (outputs ! k)) = 4 + 1 + nc \<and>
           slice1 0 4 (outputs ! k) = reg_output \<and>
           slice1 4 5 (outputs ! k) = obj_output \<and>
           slice1 5 (5 + nc) (outputs ! k) = cls_output"
proof -
  let ?hm = "YOLOXHead_init W nc w in_chs act dw"
  from head_loop_InrD [OF assms(1) [unfolded YOLOXHead_forward_def]] assms(2)
  obtain lga lgb where a: "head_scale ?hm k (inputs ! k) lga = (Inr (outputs ! k), lgb)"
    by fastforce
  from head_scale_InrD [OF a] obtain r ob cl lg1
    where br: "head_branches ?hm k (inputs ! k) lga = (Inr (r, ob, cl), lg1)"
      and cat: "torch_cat1 [r, ob, cl] = Inr (outputs ! k)"
    by blast
  from head_branches_InrD [OF br] obtain cf rf
    where k: "k < length (cls_preds ?hm)" "k < length (reg_preds ?hm)"
        "k < length (obj_preds ?hm)"
      and cv: "conv2d_forward (cls_preds ?hm ! k) cf = Inr cl"
        "conv2d_forward (reg_preds ?hm ! k) rf = Inr r"
        "conv2d_forward (obj_preds ?hm ! k) rf = Inr ob"
    by blast
  from k have kk: "k < length in_chs"
    by (simp add: YOLOXHead_init_def Let_def)
  have oc: "out_channels (cls_preds ?hm ! k) = int nc" "out_channels (reg_preds ?hm ! k) = 4"
    "out_channels (obj_preds ?hm ! k) = 1"
    using kk by (simp_all add: YOLOXHead_init_def Let_def Conv2d_def)
  from conv2d_forward_InrD [OF cv(1)] conv2d_forward_InrD [OF cv(2)]
    conv2d_forward_InrD [OF cv(3)] oc
  have len: "length (chans cl) = nc" "length (chans r) = 4" "length (chans ob) = 1"
    by simp_all
  from torch_cat1_triple_InrD [OF cat]
  have out: "outputs ! k = r\<lparr>chans := chans r @ chans ob @ chans cl\<rparr>"
    and dims: "dimN ob = dimN r" "dimH ob = dimH r" "dimW ob = dimW r"
      "dimN cl = dimN r" "dimH cl = dimH r" "dimW cl = dimW r"
    by simp_all
  have ch: "chans (outputs ! k) = chans r @ chans ob @ chans cl"
    by (simp add: out)
  have s1: "slice1 0 4 (outputs ! k) = r"
    by (simp add: slice1_def out len)
  have s2: "slice1 4 5 (outputs ! k) = ob"
    by (rule tensor.equality) (simp_all add: slice1_def out len dims)
  have s3: "slice1 5 (5 + nc) (outputs ! k) = cl"
    by (rule tensor.equality) (simp_all add: slice1_def out len dims)
  have ln: "length (chans (outputs ! k)) = 4 + 1 + nc"
    by (simp add: ch len)
  from br ch ln s1 s2 s3 show ?thesis by blast
qed

theorem C5_channel_roundtrip_witness:
  "\<exists>outputs lg' reg_output obj_output cls_output lga lgb.
     YOLOXHead_forward
       (YOLOXHead_init (unit_params Map.empty) 80 1 [256, 512, 1024] ''silu'' False)
       [unit_tensor 1 256 80 80, unit_tensor 1 512 40 40, unit_tensor 1 1024 20 20] []
       = (Inr outputs, lg') \<and>
     head_branches
       (YOLOXHead_init (unit_params Map.empty) 80 1 [256, 512, 1024] ''silu'' False) 0
       (unit_tensor 1 256 80 80) lga = (Inr (reg_output, obj_output, cls_output), lgb) \<and>
     length (chans (outputs ! 0)) = 85 \<and>
     slice1 0 4 (outputs ! 0) = reg_output \<and>
     slice1 4 5 (outputs ! 0) = obj_output \<and>
     slice1 5 85 (outputs ! 0) = cls_output"
proof -
  let ?hm = "YOLOXHead_init (unit_params Map.empty) 80 1 [256, 512, 1024] ''silu'' False"
  let ?xs = "[unit_tensor 1 256 80 80, unit_tensor 1 512 40 40, unit_tensor 1 1024 20 20]"
  obtain o0 o1 o2 lg' where a: "YOLOXHead_forward ?hm ?xs [] = (Inr [o0, o1, o2], lg')"
    using unit_head_forward_ok [of 80 80 40 40 20 20 80 1 1 1] by auto
  have k: "0 < length [o0, o1, o2]" by simp
  from C5_channel_roundtrip [OF a k]
  obtain r ob cl lga lgb where
    "head_branches ?hm 0 (?xs ! 0) lga = (Inr (r, ob, cl), lgb)"
    "length (chans ([o0, o1, o2] ! 0)) = 4 + 1 + 80"
    "slice1 0 4 ([o0, o1, o2] ! 0) = r" "slice1 4 5 ([o0, o1, o2] ! 0) = ob"
    "slice1 5 (5 + 80) ([o0, o1, o2] ! 0) = cl"
    by blast
  then have "head_branches ?hm 0 (unit_tensor 1 256 80 80) lga = (Inr (r, ob, cl), lgb) \<and>
     length (chans ([o0, o1, o2] ! 0)) = 85 \<and>
     slice1 0 4 ([o0, o1, o2] ! 0) = r \<and> slice1 4 5 ([o0, o1, o2] ! 0) = ob \<and>
     slice1 5 85 ([o0, o1, o2] ! 0) = cl"
    by simp
  with a show ?thesis by blast
qed

subsection \<open>C6: the concatenations are aligned\<close>



subsection \<open>C7: the profile table\<close>

text \<open>
  Claim C7. Constructing the model with a profile name outside the table raises
  \<^verbatim>\<open>KeyError\<close> on that name (the spec's UNKNOWN_PROFILE) with nothing logged, that is
  before either submodule is instantiated; for a name of the table both submodules are
  instantiated with the depth and width the two dictionaries give for it and with the
  depthwise flag set exactly when the name is \<^verbatim>\<open>nano\<close>.
\<close>

theorem C7_profile_lookup:
  "(phi \<notin> {''nano'', ''tiny'', ''s'', ''m'', ''l'', ''x''} \<longrightarrow>
      YoloBody_init W num_classes phi lg = (Inl (KeyError phi), lg)) \<and>
   (phi \<in> {''nano'', ''tiny'', ''s'', ''m'', ''l'', ''x''} \<longrightarrow>
      (\<exists>M depth width.
         YoloBody_init W num_classes phi lg =
           (Inr M, lg @ [Instantiate ''SD_PFAN'', Instantiate ''YOLOXHead'']) \<and>
         map_of depth_dict phi = Some depth \<and> map_of width_dict phi = Some width \<and>
         SD_PFAN_init W depth width [''dark3'', ''dark4'', ''dark5''] [256, 512, 1024]
           (phi = ''nano'') ''silu'' = Inr (yb_backbone M) \<and>
         backbone (yb_backbone M) =
           PAC_CSPDarknet depth width (phi = ''nano'') ''silu'' (backbone_out W) \<and>
         yb_head M = YOLOXHead_init W num_classes width [256, 512, 1024] ''silu''
                       (phi = ''nano'')))"
proof (intro conjI impI)
  assume "phi \<notin> {''nano'', ''tiny'', ''s'', ''m'', ''l'', ''x''}"
  then show "YoloBody_init W num_classes phi lg = (Inl (KeyError phi), lg)"
    by (simp add: YoloBody_init_def depth_dict_def raise_def)
next
  assume "phi \<in> {''nano'', ''tiny'', ''s'', ''m'', ''l'', ''x''}"
  then obtain depth width
    where dw: "map_of depth_dict phi = Some depth" "map_of width_dict phi = Some width"
    using profile_names [of phi] by fastforce
  from YoloBody_init_ok [OF dw, of W num_classes lg]
  obtain M where M: "YoloBody_init W num_classes phi lg =
           (Inr M, lg @ [Instantiate ''SD_PFAN'', Instantiate ''YOLOXHead''])"
      "SD_PFAN_init W depth width [''dark3'', ''dark4'', ''dark5''] [256, 512, 1024]
           (phi = ''nano'') ''silu'' = Inr (yb_backbone M)"
      "backbone (yb_backbone M) =
           PAC_CSPDarknet depth width (phi = ''nano'') ''silu'' (backbone_out W)"
      "yb_head M = YOLOXHead_init W num_classes width [256, 512, 1024] ''silu''
                       (phi = ''nano'')"
    by (elim exE conjE)
  show "\<exists>M depth width.
         YoloBody_init W num_classes phi lg =
           (Inr M, lg @ [Instantiate ''SD_PFAN'', Instantiate ''YOLOXHead'']) \<and>
         map_of depth_dict phi = Some depth \<and> map_of width_dict phi = Some width \<and>
         SD_PFAN_init W depth width [''dark3'', ''dark4'', ''dark5''] [256, 512, 1024]
           (phi = ''nano'') ''silu'' = Inr (yb_backbone M) \<and>
         backbone (yb_backbone M) =
           PAC_CSPDarknet depth width (phi = ''nano'') ''silu'' (backbone_out W) \<and>
         yb_head M = YOLOXHead_init W num_classes width [256, 512, 1024] ''silu''
                       (phi = ''nano'')"
    by (intro exI [of _ M] exI [of _ depth] exI [of _ width] conjI) (fact M dw)+
qed

theorem C7_profile_lookup_witness:
  "YoloBody_init (unit_params Map.empty) 80 ''huge'' [] = (Inl (KeyError ''huge''), []) \<and>
   (\<exists>M. YoloBody_init (unit_params Map.empty) 80 ''nano'' [] =
           (Inr M, [Instantiate ''SD_PFAN'', Instantiate ''YOLOXHead'']) \<and>
        backbone (yb_backbone M) =
          PAC_CSPDarknet (33/100) (1/4) True ''silu'' (backbone_out (unit_params Map.empty)))"
proof -
  have a: "''huge'' \<notin> {''nano'', ''tiny'', ''s'', ''m'', ''l'', ''x''}"
    and b: "''nano'' \<in> {''nano'', ''tiny'', ''s'', ''m'', ''l'', ''x''}"
    by simp_all
  have d: "map_of depth_dict ''nano'' = Some (33/100)" "map_of width_dict ''nano'' = Some (1/4)"
    by (simp_all add: depth_dict_def width_dict_def)
  from C7_profile_lookup [of "''huge''" "unit_params Map.empty" 80 "[]"] a
  have 1: "YoloBody_init (unit_params Map.empty) 80 ''huge'' [] = (Inl (KeyError ''huge''), [])"
    by blast
  from C7_profile_lookup [of "''nano''" "unit_params Map.empty" 80 "[]"] b
  obtain M depth width where M:
    "YoloBody_init (unit_params Map.empty) 80 ''nano'' [] =
       (Inr M, [] @ [Instantiate ''SD_PFAN'', Instantiate ''YOLOXHead''])"
    "map_of depth_dict ''nano'' = Some depth" "map_of width_dict ''nano'' = Some width"
    "backbone (yb_backbone M) =
       PAC_CSPDarknet depth width (''nano'' = ''nano'') ''silu''
         (backbone_out (unit_params Map.empty))"
    by blast
  from M(2,3) d have "depth = 33/100" "width = 1/4" by simp_all
  with M(1,4)
  have 2: "\<exists>M. YoloBody_init (unit_params Map.empty) 80 ''nano'' [] =
           (Inr M, [Instantiate ''SD_PFAN'', Instantiate ''YOLOXHead'']) \<and>
        backbone (yb_backbone M) =
          PAC_CSPDarknet (33/100) (1/4) True ''silu'' (backbone_out (unit_params Map.empty))"
    by (intro exI [of _ M]) simp
  from 1 2 show ?thesis by blast
qed

subsection \<open>C8: a missing feature level\<close>

text \<open>
  Claim C8. If the mapping the backbone returns lacks one of the feature names the fusion
  network looks up, \<^verbatim>\<open>SD_PFAN.forward\<close> raises \<^verbatim>\<open>KeyError\<close> on a missing name (the
  spec's MISSING_FEATURE_LEVEL), and the only call logged by then is the one of the
  backbone: no gate, resampling, concatenation or projection has run.
\<close>

theorem C8_missing_feature_level:
  assumes "\<exists>f \<in> set (in_features P). d_run (backbone P) x f = None"
  shows "\<exists>f \<in> set (in_features P). d_run (backbone P) x f = None \<and>
           SD_PFAN_forward P x lg = (Inl (KeyError f), lg @ [Call ''backbone''])"
proof -
  from lookup_all_missing [OF assms, of "lg @ [Call ''backbone'']"]
  obtain f where f: "f \<in> set (in_features P)" "d_run (backbone P) x f = None"
    "lookup_all (d_run (backbone P) x) (in_features P) (lg @ [Call ''backbone'']) =
       (Inl (KeyError f), lg @ [Call ''backbone''])"
    by blast
  have "SD_PFAN_forward P x lg = (Inl (KeyError f), lg @ [Call ''backbone''])"
    unfolding SD_PFAN_forward_def bnd_def
    by (simp only: call_Inr f(3) prod.case sum.case)
  with f(1,2) show ?thesis by blast
qed

theorem C8_missing_feature_level_witness:
  "\<exists>P. SD_PFAN_init
          (unit_params [''dark3'' \<mapsto> unit_tensor 1 256 80 80, ''dark4'' \<mapsto> unit_tensor 1 512 40 40])
          1 1 [''dark3'', ''dark4'', ''dark5''] [256, 512, 1024] False ''silu'' = Inr P \<and>
       SD_PFAN_forward P (unit_tensor 1 3 640 640) [] =
         (Inl (KeyError ''dark5''), [Call ''backbone''])"
proof -
  let ?W = "unit_params [''dark3'' \<mapsto> unit_tensor 1 256 80 80,
                         ''dark4'' \<mapsto> unit_tensor 1 512 40 40]"
  obtain P where P: "SD_PFAN_init ?W 1 1 [''dark3'', ''dark4'', ''dark5''] [256, 512, 1024]
                       False ''silu'' = Inr P"
    and feats: "in_features P = [''dark3'', ''dark4'', ''dark5'']"
    and run: "d_run (backbone P) = (\<lambda>_. [''dark3'' \<mapsto> unit_tensor 1 256 80 80,
                                          ''dark4'' \<mapsto> unit_tensor 1 512 40 40])"
    by (simp add: SD_PFAN_init_def PAC_CSPDarknet_def unit_params_def)
  have "\<exists>f \<in> set (in_features P). d_run (backbone P) (unit_tensor 1 3 640 640) f = None"
    by (simp add: feats run)
  from C8_missing_feature_level [OF this, of "[]"]
  have "SD_PFAN_forward P (unit_tensor 1 3 640 640) [] =
          (Inl (KeyError ''dark5''), [Call ''backbone''])"
    by (simp add: feats run)
  with P show ?thesis by blast
qed

subsection \<open>C10: the scales of the head are independent\<close>

text \<open>
  Claim C10. In \<^verbatim>\<open>YOLOXHead.forward\<close> output \<open>k\<close> depends only on input \<open>k\<close> and on the
  parameters of scale \<open>k\<close>: two calls that return, on input sequences that agree at
  position \<open>k\<close> and with heads whose modules of scale \<open>k\<close> are the same, return the same
  tensor at position \<open>k\<close>; and each call returns as many tensors as it was given.
\<close>

theorem C10_scale_independence:
  assumes "YOLOXHead_forward hm xs lg = (Inr os, lg1)"
    and "YOLOXHead_forward hm' ys lg' = (Inr os', lg1')"
    and "k < length xs" and "k < length ys" and "xs ! k = ys ! k"
    and "scale_params hm k = scale_params hm' k"
  shows "os ! k = os' ! k \<and> length os = length xs \<and> length os' = length ys"
proof -
  from head_loop_InrD [OF assms(1) [unfolded YOLOXHead_forward_def]] assms(3)
  obtain lga lgb where a: "head_scale hm k (xs ! k) lga = (Inr (os ! k), lgb)"
    and la: "length os = length xs"
    by fastforce
  from head_loop_InrD [OF assms(2) [unfolded YOLOXHead_forward_def]] assms(4)
  obtain lga' lgb' where b: "head_scale hm' k (ys ! k) lga' = (Inr (os' ! k), lgb')"
    and lb: "length os' = length ys"
    by fastforce
  from head_scale_determined [OF a b [folded assms(5)] assms(6)] la lb
  show ?thesis by simp
qed

theorem C10_scale_independence_witness:
  "\<exists>os os' lg1 lg1'.
     YOLOXHead_forward
       (YOLOXHead_init (unit_params Map.empty) 80 1 [256, 512, 1024] ''silu'' False)
       [unit_tensor 1 256 80 80, unit_tensor 1 512 40 40, unit_tensor 1 1024 20 20] []
       = (Inr os, lg1) \<and>
     YOLOXHead_forward
       (YOLOXHead_init (unit_params Map.empty) 80 1 [256, 512, 1024] ''silu'' False)
       [unit_tensor 1 256 8 8, unit_tensor 1 512 40 40, unit_tensor 1 1024 2 2] []
       = (Inr os', lg1') \<and>
     os ! 1 = os' ! 1 \<and> length os = 3 \<and> length os' = 3"
proof -
  let ?hm = "YOLOXHead_init (unit_params Map.empty) 80 1 [256, 512, 1024] ''silu'' False"
  let ?xs = "[unit_tensor 1 256 80 80, unit_tensor 1 512 40 40, unit_tensor 1 1024 20 20]"
  let ?ys = "[unit_tensor 1 256 8 8, unit_tensor 1 512 40 40, unit_tensor 1 1024 2 2]"
  obtain os lg1 where a: "YOLOXHead_forward ?hm ?xs [] = (Inr os, lg1)"
    using unit_head_forward_ok [of 80 80 40 40 20 20 80 1 1 1] by auto
  obtain os' lg1' where b: "YOLOXHead_forward ?hm ?ys [] = (Inr os', lg1')"
    using unit_head_forward_ok [of 8 8 40 40 2 2 80 1 1 1] by auto
  have k: "1 < length ?xs" "1 < length ?ys" "?xs ! 1 = ?ys ! 1" by simp_all
  from C10_scale_independence [OF a b k refl]
  have "os ! 1 = os' ! 1 \<and> length os = 3 \<and> length os' = 3" by simp
  with a b show ?thesis by blast
qed

end
